theory Spec2Isabelle
  imports Main
begin

section \<open>Texts\<close>

text \<open>
  A Python \<open>str\<close> is a sequence of Unicode code points and \<open>len\<close> counts code points,
  so a text is a list of code points, each an integer. \<open>cp\<close> turns an ASCII literal into a text.
\<close>

type_synonym texto = "int list"

definition cp :: "string \<Rightarrow> texto" where
  "cp s = map of_char s"

text \<open>
  \<open>str.isspace\<close> for one code point; it is also what \<open>str.strip()\<close> removes and what
  \<open>\s\<close> matches in a \<open>str\<close> pattern.
\<close>

definition es_espacio :: "int \<Rightarrow> bool" where
  "es_espacio c \<longleftrightarrow>
     (9 \<le> c \<and> c \<le> 13) \<or> (28 \<le> c \<and> c \<le> 32) \<or> c = 133 \<or> c = 160 \<or> c = 5760 \<or>
     (8192 \<le> c \<and> c \<le> 8202) \<or> c = 8232 \<or> c = 8233 \<or> c = 8239 \<or> c = 8287 \<or> c = 12288"

definition strip :: "texto \<Rightarrow> texto" where
  "strip s = rev (dropWhile es_espacio (rev (dropWhile es_espacio s)))"

text \<open>
  \<open>str.upper\<close> and \<open>str.lower\<close>, exact on ASCII and Latin-1; a code point above U+00FF
  is left as it is.
\<close>

definition upper_cp :: "int \<Rightarrow> texto" where
  "upper_cp c =
     (if 97 \<le> c \<and> c \<le> 122 then [c - 32]
      else if c = 181 then [924]
      else if c = 223 then [83, 83]
      else if c = 255 then [376]
      else if 224 \<le> c \<and> c \<le> 254 \<and> c \<noteq> 247 then [c - 32]
      else [c])"

definition upper :: "texto \<Rightarrow> texto" where
  "upper s = concat (map upper_cp s)"

definition lower_cp :: "int \<Rightarrow> int" where
  "lower_cp c =
     (if 65 \<le> c \<and> c \<le> 90 then c + 32
      else if 192 \<le> c \<and> c \<le> 222 \<and> c \<noteq> 215 then c + 32
      else c)"

definition lower :: "texto \<Rightarrow> texto" where
  "lower s = map lower_cp s"

text \<open>\<open>\w\<close> in a \<open>str\<close> pattern: alphanumeric or underscore (ASCII and Latin-1).\<close>

definition es_palabra :: "int \<Rightarrow> bool" where
  "es_palabra c \<longleftrightarrow>
     (48 \<le> c \<and> c \<le> 57) \<or> (65 \<le> c \<and> c \<le> 90) \<or> c = 95 \<or> (97 \<le> c \<and> c \<le> 122) \<or>
     c = 170 \<or> c = 178 \<or> c = 179 \<or> c = 181 \<or> c = 185 \<or> c = 186 \<or>
     (188 \<le> c \<and> c \<le> 190) \<or> (192 \<le> c \<and> c \<le> 214) \<or> (216 \<le> c \<and> c \<le> 246) \<or>
     (248 \<le> c \<and> c \<le> 255)"

text \<open>\<open>texto.split('\n')\<close> and \<open>'\n'.join(lineas)\<close>.\<close>

fun split_lineas :: "texto \<Rightarrow> texto list" where
  "split_lineas [] = [[]]"
| "split_lineas (c # cs) =
     (if c = 10 then [] # split_lineas cs
      else (case split_lineas cs of [] \<Rightarrow> [[c]] | l # ls \<Rightarrow> (c # l) # ls))"

fun join_con :: "texto \<Rightarrow> texto list \<Rightarrow> texto" where
  "join_con sep [] = []"
| "join_con sep [l] = l"
| "join_con sep (l # m # ls) = l @ sep @ join_con sep (m # ls)"

text \<open>\<open>re.search\<close> tries the matcher at every start position, the end included.\<close>

fun buscar :: "(texto \<Rightarrow> bool) \<Rightarrow> texto \<Rightarrow> bool" where
  "buscar m [] = m []"
| "buscar m (c # cs) = (m (c # cs) \<or> buscar m cs)"

definition quitar_prefijo :: "texto \<Rightarrow> texto \<Rightarrow> texto option" where
  "quitar_prefijo p s = (if take (length p) s = p then Some (drop (length p) s) else None)"

definition contiene :: "texto \<Rightarrow> texto \<Rightarrow> bool" where
  "contiene p s = buscar (\<lambda>r. quitar_prefijo p r \<noteq> None) s"


section \<open>Failures\<close>

text \<open>
  Every failure of the domain is a Python \<open>ValueError\<close>; the constructors stand for its
  messages. A command mutates the entity in place, so it returns its outcome together
  with the entity as the call leaves it, also when it raises.
\<close>

datatype razon =
    YaTieneTrasladoActivo | YaTieneRadicacionActiva | CuentaInactiva
  | SoloPuedeRecibirRadicaciones | SoloPuedeEnviarTraslados
  | ProcesoAnteriorNoPermite | RazonNoDeterminada

datatype error =
    FuncionarioIdVacio | MotivoVacio | MotivoExcede500 | ObservacionesExceden1000
  | FechaAsignacionFutura
  | ObservacionExcede1000 | CaracteresNoPermitidos | ContenidoNoPermitido
  | FuncionarioVacio
  | ConsecutivoInvalido | FuncionarioCreadorVacio
  | EnTrasladoSinProceso | EnRadicacionSinProceso | AmbosProcesosActivos
  | SinProcesoConProcesoActivo
  | NoPuedeIniciarTraslado "razon option" | NoPuedeIniciarRadicacion "razon option"
  | NoHayTrasladoParaCompletar | NoHayRadicacionParaCompletar
  | NoHayTrasladoParaDevolver | NoHayRadicacionParaDevolver
  | CuentaConProcesosActivos | SoloReactivarInactivas | FuncionarioYaAsignado
  | FuncionarioProcesoVacio | VencimientoNoPosterior
  | NoPuedeRecibir | NoPuedePasarARevision | NoPuedeCompletar | NoPuedeReportarNovedad
  | NoPuedeResolverNovedad | NoPuedeDevolver | ObservacionesEnEstadoFinal
  | NoPuedeResolver | DescripcionResolucionVacia | NoPuedeReabrir | MotivoReaperturaVacio
  | PrioridadDeResuelta | PrioridadIgual | JustificacionVacia | ObservacionesDeResuelta

datatype resultado = Exito | Falla error

text \<open>
  The clock: \<open>date.today()\<close> as a day number and
  \<open>datetime.now().strftime("%d/%m/%Y %H:%M")\<close>. One command reads one clock.
\<close>

record reloj =
  hoy :: int
  ahora :: texto

section \<open>Observacion\<close>

record observacion =
  valor :: texto

text \<open>\<open>re.sub(r'[\x00-\x08\x0B\x0C\x0E-\x1F\x7F]', ' ', texto)\<close>\<close>

definition reemplazar_control :: "int \<Rightarrow> int" where
  "reemplazar_control c =
     (if (0 \<le> c \<and> c \<le> 8) \<or> c = 11 \<or> c = 12 \<or> (14 \<le> c \<and> c \<le> 31) \<or> c = 127 then 32 else c)"

text \<open>\<open>re.sub(r' {2,}', ' ', linea)\<close>: a run of spaces becomes one space.\<close>

fun colapsar_espacios :: "texto \<Rightarrow> texto" where
  "colapsar_espacios (a # b # cs) =
     (if a = 32 \<and> b = 32 then colapsar_espacios (b # cs) else a # colapsar_espacios (b # cs))"
| "colapsar_espacios cs = cs"

text \<open>
  \<open>re.sub(r'\n\s*\n', '\n\n', texto)\<close>: at a newline, the greedy \<open>\s*\<close> takes the
  whole whitespace run that follows and backtracks to the last newline in it; with no
  newline in the run there is no match at this position.
\<close>

definition fin_salto :: "texto \<Rightarrow> nat" where
  "fin_salto w = length w - length (takeWhile (\<lambda>c. c \<noteq> 10) (rev w))"

function colapsar_saltos :: "texto \<Rightarrow> texto" where
  "colapsar_saltos [] = []"
| "colapsar_saltos (c # cs) =
     (if c = 10 \<and> 10 \<in> set (takeWhile es_espacio cs)
      then 10 # 10 # colapsar_saltos (drop (fin_salto (takeWhile es_espacio cs)) cs)
      else c # colapsar_saltos cs)"
  by pat_completeness auto
termination
  by (relation "measure length") auto

definition normalizar_texto :: "texto \<Rightarrow> texto" where
  "normalizar_texto t =
     (if t = [] \<or> strip t = [] then []
      else strip (colapsar_saltos (join_con [10]
             (map (\<lambda>l. strip (colapsar_espacios l))
                  (split_lineas (map reemplazar_control t))))))"

definition es_longitud_valida :: "texto \<Rightarrow> bool" where
  "es_longitud_valida t \<longleftrightarrow> length t \<le> 1000"

text \<open>
  The character class of \<open>_contiene_solo_caracteres_permitidos\<close>, code point by code
  point as \<open>observacion.py\<close> holds it: the ranges \<open>a-z\<close>, \<open>A-Z\<close>, \<open>0-9\<close>, \<open>\s\<close>, the
  ASCII punctuation, and 39 code points above U+007F. The pattern is \<open>^[...]*$\<close>, so a
  text matches when each of its code points is in the class.
\<close>

definition caracter_permitido :: "int \<Rightarrow> bool" where
  "caracter_permitido c \<longleftrightarrow>
     (97 \<le> c \<and> c \<le> 122) \<or> (65 \<le> c \<and> c \<le> 90) \<or> (48 \<le> c \<and> c \<le> 57) \<or> es_espacio c \<or>
     c \<in> set [46, 44, 59, 58, 63, 33, 45, 95, 40, 41, 91, 93, 34, 39, 37, 35, 64, 60, 62,
               124, 47, 43, 42, 61, 38, 36, 96, 126, 94] \<or>
     c \<in> set [165, 168, 169, 170, 172, 176, 177, 180, 182, 186, 196, 197, 199, 212, 214,
               226, 229, 231, 232, 233, 235, 236, 238, 241, 244, 246, 248, 250, 252,
               8218, 8224, 8719, 8721, 8730, 8734, 8747, 8800, 8805, 63743]"

definition contiene_solo_caracteres_permitidos :: "texto \<Rightarrow> bool" where
  "contiene_solo_caracteres_permitidos t \<longleftrightarrow> list_all caracter_permitido t"

text \<open>
  The seven patterns of \<open>_contiene_contenido_sospechoso\<close>, each as a matcher at one
  start position. After a greedy \<open>\w+\<close> or \<open>\s*\<close> the next pattern character is outside
  the repeated class, so only the longest repetition can match.
\<close>

definition m_script_abre :: "texto \<Rightarrow> bool" where
  "m_script_abre s = (case quitar_prefijo (cp ''<script'') s of
                        None \<Rightarrow> False | Some r \<Rightarrow> 62 \<in> set r)"

definition tras_espacios :: "int list \<Rightarrow> texto \<Rightarrow> bool" where
  "tras_espacios cs s = (case dropWhile es_espacio s of [] \<Rightarrow> False | c # _ \<Rightarrow> c \<in> set cs)"

definition m_on_atributo :: "texto \<Rightarrow> bool" where
  "m_on_atributo s = (case quitar_prefijo (cp ''on'') s of
                        None \<Rightarrow> False
                      | Some r \<Rightarrow>
                          dropWhile es_palabra r \<noteq> r \<and>
                          (case dropWhile es_espacio (dropWhile es_palabra r) of
                             [] \<Rightarrow> False
                           | c # q \<Rightarrow> c = 61 \<and> tras_espacios [34, 39] q))"

definition m_eval :: "texto \<Rightarrow> bool" where
  "m_eval s = (case quitar_prefijo (cp ''eval'') s of
                 None \<Rightarrow> False | Some r \<Rightarrow> tras_espacios [40] r)"

definition m_window_location :: "texto \<Rightarrow> bool" where
  "m_window_location s = (case quitar_prefijo (cp ''window.location'') s of
                            None \<Rightarrow> False | Some r \<Rightarrow> tras_espacios [61] r)"

definition contiene_contenido_sospechoso :: "texto \<Rightarrow> bool" where
  "contiene_contenido_sospechoso t \<longleftrightarrow>
     t \<noteq> [] \<and>
     (let l = lower t in
        buscar m_script_abre l \<or> contiene (cp ''</script>'') l \<or>
        contiene (cp ''javascript:'') l \<or> buscar m_on_atributo l \<or> buscar m_eval l \<or>
        contiene (cp ''document.write'') l \<or> buscar m_window_location l)"

text \<open>\<open>Observacion.__post_init__\<close>: the checks in the order of the source.\<close>

definition Observacion :: "texto \<Rightarrow> error + observacion" where
  "Observacion v =
     (let n = normalizar_texto v in
        if \<not> es_longitud_valida n then Inl ObservacionExcede1000
        else if n \<noteq> [] \<and> \<not> contiene_solo_caracteres_permitidos n then Inl CaracteresNoPermitidos
        else if contiene_contenido_sospechoso n then Inl ContenidoNoPermitido
        else Inr \<lparr>valor = n\<rparr>)"

definition vacia :: observacion where
  "vacia = \<lparr>valor = []\<rparr>"

definition esta_vacia :: "observacion \<Rightarrow> bool" where
  "esta_vacia ob \<longleftrightarrow> valor ob = [] \<or> strip (valor ob) = []"

definition agregar_timestamp_automatico ::
  "reloj \<Rightarrow> observacion \<Rightarrow> texto \<Rightarrow> error + observacion" where
  "agregar_timestamp_automatico r ob funcionario =
     (if strip funcionario = [] then Inl FuncionarioVacio
      else Observacion (cp ''['' @ ahora r @ cp '' - '' @ funcionario @ cp ''] '' @
             (if esta_vacia ob then cp ''Sin observaciones adicionales.'' else valor ob)))"

definition crear_desde_texto :: "texto \<Rightarrow> error + observacion" where
  "crear_desde_texto t = Observacion t"

definition crear_con_timestamp :: "reloj \<Rightarrow> texto \<Rightarrow> texto \<Rightarrow> error + observacion" where
  "crear_con_timestamp r t funcionario =
     (case (if t \<noteq> [] then Observacion t else Inr vacia) of
        Inl e \<Rightarrow> Inl e
      | Inr base \<Rightarrow> agregar_timestamp_automatico r base funcionario)"

definition combinar_observaciones :: "observacion list \<Rightarrow> error + observacion" where
  "combinar_observaciones obs =
     (let validas = filter (\<lambda>ob. \<not> esta_vacia ob) obs in
        if validas = [] then Inr vacia
        else Observacion (join_con (10 # cp ''---'' @ [10]) (map valor validas)))"


section \<open>HistorialAsignacion\<close>

datatype tipo_asignacion =
    CREACION | REASIGNACION | INICIO_PROCESO | COMPLETAR_PROCESO | DEVOLVER_PROCESO
  | INACTIVACION | REACTIVACION

record historial_asignacion =
  funcionario_id :: texto
  fecha_asignacion :: int
  motivo :: texto
  funcionario_asigna :: "texto option"
  tipo_asignacion :: tipo_asignacion
  h_observaciones :: "texto option"

definition quitar_tilde :: "int \<Rightarrow> int" where
  "quitar_tilde c =
     (if c = 225 then 97 else if c = 233 then 101 else if c = 237 then 105
      else if c = 243 then 111 else if c = 250 then 117 else if c = 241 then 110 else c)"

definition detectar_tipo_asignacion :: "texto \<Rightarrow> tipo_asignacion" where
  "detectar_tipo_asignacion m =
     (let l = map quitar_tilde (lower m) in
        if contiene (cp ''creacion'') l then CREACION
        else if contiene (cp ''reasignacion'') l then REASIGNACION
        else if contiene (cp ''inicio'') l then INICIO_PROCESO
        else if contiene (cp ''completar'') l then COMPLETAR_PROCESO
        else if contiene (cp ''devolver'') l then DEVOLVER_PROCESO
        else if contiene (cp ''inactivar'') l then INACTIVACION
        else if contiene (cp ''reactivar'') l then REACTIVACION
        else REASIGNACION)"

text \<open>
  \<open>HistorialAsignacion.__post_init__\<close>: normalise, validate in the order of the source,
  then store the normalised values. The date is a day number, so the \<open>isinstance\<close>
  check of the date has no counterpart.
\<close>

definition HistorialAsignacion ::
  "reloj \<Rightarrow> texto \<Rightarrow> int \<Rightarrow> texto \<Rightarrow> texto option \<Rightarrow> tipo_asignacion option \<Rightarrow> texto option
     \<Rightarrow> error + historial_asignacion" where
  "HistorialAsignacion r fid fecha mot asigna tipo obs =
     (let funcionario_normalizado = (if fid \<noteq> [] then upper (strip fid) else []);
          motivo_normalizado = (if mot \<noteq> [] then strip mot else []);
          asigna_normalizado =
            (case asigna of None \<Rightarrow> None
             | Some a \<Rightarrow> if a \<noteq> [] then Some (upper (strip a)) else None);
          observaciones_normalizadas =
            (case obs of None \<Rightarrow> None
             | Some ob \<Rightarrow> if ob \<noteq> [] then Some (strip ob) else None)
      in
        if funcionario_normalizado = [] then Inl FuncionarioIdVacio
        else if motivo_normalizado = [] then Inl MotivoVacio
        else if length motivo_normalizado > 500 then Inl MotivoExcede500
        else if (case observaciones_normalizadas of
                   None \<Rightarrow> False | Some ob \<Rightarrow> ob \<noteq> [] \<and> length ob > 1000)
             then Inl ObservacionesExceden1000
        else if fecha > hoy r then Inl FechaAsignacionFutura
        else Inr \<lparr>funcionario_id = funcionario_normalizado,
                  fecha_asignacion = fecha,
                  motivo = motivo_normalizado,
                  funcionario_asigna = asigna_normalizado,
                  tipo_asignacion =
                    (case tipo of Some t \<Rightarrow> t
                     | None \<Rightarrow> detectar_tipo_asignacion motivo_normalizado),
                  h_observaciones = observaciones_normalizadas\<rparr>)"

definition es_asignacion_inicial :: "historial_asignacion \<Rightarrow> bool" where
  "es_asignacion_inicial h \<longleftrightarrow> tipo_asignacion h = CREACION"

definition crear_asignacion_inicial :: "reloj \<Rightarrow> texto \<Rightarrow> int \<Rightarrow> error + historial_asignacion" where
  "crear_asignacion_inicial r fid fecha =
     HistorialAsignacion r fid fecha (cp ''creacion'') None (Some CREACION) None"

definition crear_reasignacion_manual ::
  "reloj \<Rightarrow> texto \<Rightarrow> texto \<Rightarrow> texto \<Rightarrow> texto option \<Rightarrow> error + historial_asignacion" where
  "crear_reasignacion_manual r fid asigna mot obs =
     HistorialAsignacion r fid (hoy r) mot (Some asigna) (Some REASIGNACION) obs"

definition crear_cambio_proceso ::
  "reloj \<Rightarrow> texto \<Rightarrow> texto \<Rightarrow> texto \<Rightarrow> texto option \<Rightarrow> error + historial_asignacion" where
  "crear_cambio_proceso r fid tipo_proceso accion motivo_adicional =
     (let motivo_base = accion @ cp ''_'' @ tipo_proceso;
          mot = (case motivo_adicional of
                   None \<Rightarrow> motivo_base
                 | Some a \<Rightarrow> if a \<noteq> [] then motivo_base @ cp '': '' @ a else motivo_base);
          tipo = (if accion = cp ''inicio'' then INICIO_PROCESO
                  else if accion = cp ''completar'' then COMPLETAR_PROCESO
                  else if accion = cp ''devolver'' then DEVOLVER_PROCESO
                  else REASIGNACION)
      in HistorialAsignacion r fid (hoy r) mot None (Some tipo) motivo_adicional)"

definition crear_inactivacion :: "reloj \<Rightarrow> texto \<Rightarrow> texto \<Rightarrow> error + historial_asignacion" where
  "crear_inactivacion r fid mot =
     HistorialAsignacion r fid (hoy r) (cp ''inactivar: '' @ mot) None (Some INACTIVACION)
       (Some mot)"

definition crear_reactivacion :: "reloj \<Rightarrow> texto \<Rightarrow> error + historial_asignacion" where
  "crear_reactivacion r fid =
     HistorialAsignacion r fid (hoy r) (cp ''reactivar'') None (Some REACTIVACION) None"

section \<open>Enums of the account\<close>

datatype estado_cuenta = ACTIVA | INACTIVA | EN_TRASLADO | EN_RADICACION

datatype tipo_proceso_anterior =
    NINGUNO | TRASLADO_COMPLETADO | TRASLADO_DEVUELTO | RADICACION_COMPLETADA
  | RADICACION_DEVUELTA

definition permite_traslado :: "tipo_proceso_anterior \<Rightarrow> bool" where
  "permite_traslado t \<longleftrightarrow>
     t \<in> set [NINGUNO, RADICACION_COMPLETADA, TRASLADO_DEVUELTO, RADICACION_DEVUELTA]"

definition permite_radicacion :: "tipo_proceso_anterior \<Rightarrow> bool" where
  "permite_radicacion t \<longleftrightarrow>
     t \<in> set [NINGUNO, TRASLADO_COMPLETADO, TRASLADO_DEVUELTO, RADICACION_DEVUELTA]"

section \<open>Domain events\<close>

text \<open>
  \<open>NumeroCuenta\<close> is kept as the date and the daily consecutivo it encodes; its
  13-digit text is not rendered. An event is modelled by its business fields:
  \<open>aggregate_id\<close> is the placa and \<open>version\<close> is 1 in every event, and \<open>event_id\<close> and
  \<open>timestamp\<close> come from \<open>uuid4\<close> and the clock.
\<close>

record numero_cuenta =
  nc_fecha :: int
  nc_consecutivo :: int

datatype evento =
    CuentaCreadaEvent texto numero_cuenta texto texto
  | ProcesoIniciadoEvent texto texto texto numero_cuenta
  | ProcesoCompletadoEvent texto texto texto numero_cuenta texto "texto option"
  | CuentaReasignadaEvent texto texto texto texto texto
  | CuentaInactivadaEvent texto texto texto
  | CuentaReactivadaEvent texto texto


section \<open>Cuenta\<close>

text \<open>
  \<open>Placa\<close>, \<open>FechaCreacion\<close> and \<open>TipoServicio\<close> reach the account as values that
  their own constructors have validated; the account reads the text of the placa, the
  day of the date and the value of the enum, so the \<open>isinstance\<close> checks have no
  counterpart.
\<close>

record cuenta =
  placa :: texto
  numero_cuenta :: numero_cuenta
  tipo_servicio :: texto
  fecha_creacion :: int
  funcionario_creador :: texto
  estado :: estado_cuenta
  historial_asignaciones :: "historial_asignacion list"
  domain_events :: "evento list"
  tipo_proceso_anterior :: tipo_proceso_anterior
  proceso_traslado_activo :: bool
  proceso_radicacion_activo :: bool

definition validar_coherencia_estado :: "cuenta \<Rightarrow> error option" where
  "validar_coherencia_estado c =
     (if estado c = EN_TRASLADO \<and> \<not> proceso_traslado_activo c then Some EnTrasladoSinProceso
      else if estado c = EN_RADICACION \<and> \<not> proceso_radicacion_activo c
        then Some EnRadicacionSinProceso
      else if proceso_traslado_activo c \<and> proceso_radicacion_activo c
        then Some AmbosProcesosActivos
      else if estado c \<in> set [ACTIVA, INACTIVA] \<and>
              (proceso_traslado_activo c \<or> proceso_radicacion_activo c)
        then Some SinProcesoConProcesoActivo
      else None)"

definition get_domain_events :: "cuenta \<Rightarrow> evento list \<times> cuenta" where
  "get_domain_events c = (domain_events c, c\<lparr>domain_events := []\<rparr>)"

definition get_funcionario_actual :: "cuenta \<Rightarrow> texto" where
  "get_funcionario_actual c =
     (if historial_asignaciones c = [] then funcionario_creador c
      else funcionario_id (last (historial_asignaciones c)))"

definition tiene_proceso_activo :: "cuenta \<Rightarrow> bool" where
  "tiene_proceso_activo c \<longleftrightarrow> proceso_traslado_activo c \<or> proceso_radicacion_activo c"

definition tiene_traslado_activo :: "cuenta \<Rightarrow> bool" where
  "tiene_traslado_activo c \<longleftrightarrow> proceso_traslado_activo c"

definition tiene_radicacion_activa :: "cuenta \<Rightarrow> bool" where
  "tiene_radicacion_activa c \<longleftrightarrow> proceso_radicacion_activo c"

definition esta_inactiva :: "cuenta \<Rightarrow> bool" where
  "esta_inactiva c \<longleftrightarrow> estado c = INACTIVA"

definition puede_iniciar_traslado :: "cuenta \<Rightarrow> bool" where
  "puede_iniciar_traslado c =
     (if tiene_proceso_activo c \<or> esta_inactiva c then False
      else permite_traslado (tipo_proceso_anterior c))"

definition puede_iniciar_radicacion :: "cuenta \<Rightarrow> bool" where
  "puede_iniciar_radicacion c =
     (if tiene_proceso_activo c \<or> esta_inactiva c then False
      else permite_radicacion (tipo_proceso_anterior c))"

definition get_razon_no_puede_trasladar :: "cuenta \<Rightarrow> razon option" where
  "get_razon_no_puede_trasladar c =
     (if puede_iniciar_traslado c then None
      else if tiene_proceso_activo c then
        (if tiene_traslado_activo c then Some YaTieneTrasladoActivo
         else Some YaTieneRadicacionActiva)
      else if esta_inactiva c then Some CuentaInactiva
      else if \<not> permite_traslado (tipo_proceso_anterior c) then
        (if tipo_proceso_anterior c = TRASLADO_COMPLETADO then Some SoloPuedeRecibirRadicaciones
         else Some ProcesoAnteriorNoPermite)
      else Some RazonNoDeterminada)"

definition get_razon_no_puede_radicar :: "cuenta \<Rightarrow> razon option" where
  "get_razon_no_puede_radicar c =
     (if puede_iniciar_radicacion c then None
      else if tiene_proceso_activo c then
        (if tiene_radicacion_activa c then Some YaTieneRadicacionActiva
         else Some YaTieneTrasladoActivo)
      else if esta_inactiva c then Some CuentaInactiva
      else if \<not> permite_radicacion (tipo_proceso_anterior c) then
        (if tipo_proceso_anterior c = RADICACION_COMPLETADA then Some SoloPuedeEnviarTraslados
         else Some ProcesoAnteriorNoPermite)
      else Some RazonNoDeterminada)"

text \<open>
  A command that builds its audit record after it has changed the state is written in
  that order: the record's validation can still raise, and the entity then keeps the
  changes made before it.
\<close>

definition registrar :: "historial_asignacion \<Rightarrow> evento \<Rightarrow> cuenta \<Rightarrow> cuenta" where
  "registrar a ev c =
     c\<lparr>historial_asignaciones := historial_asignaciones c @ [a],
       domain_events := domain_events c @ [ev]\<rparr>"

definition iniciar_proceso_traslado :: "reloj \<Rightarrow> texto \<Rightarrow> cuenta \<Rightarrow> resultado \<times> cuenta" where
  "iniciar_proceso_traslado r fid c =
     (if \<not> puede_iniciar_traslado c
      then (Falla (NoPuedeIniciarTraslado (get_razon_no_puede_trasladar c)), c)
      else
        let c1 = c\<lparr>proceso_traslado_activo := True, estado := EN_TRASLADO\<rparr> in
        case crear_cambio_proceso r fid (cp ''traslado'') (cp ''inicio'') None of
          Inl e \<Rightarrow> (Falla e, c1)
        | Inr a \<Rightarrow>
            (Exito, registrar a
               (ProcesoIniciadoEvent (placa c1) (cp ''traslado'') fid (numero_cuenta c1)) c1))"

definition iniciar_proceso_radicacion :: "reloj \<Rightarrow> texto \<Rightarrow> cuenta \<Rightarrow> resultado \<times> cuenta" where
  "iniciar_proceso_radicacion r fid c =
     (if \<not> puede_iniciar_radicacion c
      then (Falla (NoPuedeIniciarRadicacion (get_razon_no_puede_radicar c)), c)
      else
        let c1 = c\<lparr>proceso_radicacion_activo := True, estado := EN_RADICACION\<rparr> in
        case crear_cambio_proceso r fid (cp ''radicacion'') (cp ''inicio'') None of
          Inl e \<Rightarrow> (Falla e, c1)
        | Inr a \<Rightarrow>
            (Exito, registrar a
               (ProcesoIniciadoEvent (placa c1) (cp ''radicacion'') fid (numero_cuenta c1)) c1))"

definition completar_proceso_traslado :: "reloj \<Rightarrow> texto \<Rightarrow> cuenta \<Rightarrow> resultado \<times> cuenta" where
  "completar_proceso_traslado r fid c =
     (if \<not> tiene_traslado_activo c then (Falla NoHayTrasladoParaCompletar, c)
      else
        let c1 = c\<lparr>proceso_traslado_activo := False,
                   tipo_proceso_anterior := TRASLADO_COMPLETADO, estado := ACTIVA\<rparr> in
        case crear_cambio_proceso r fid (cp ''traslado'') (cp ''completar'') None of
          Inl e \<Rightarrow> (Falla e, c1)
        | Inr a \<Rightarrow>
            (Exito, registrar a
               (ProcesoCompletadoEvent (placa c1) (cp ''traslado'') fid (numero_cuenta c1)
                  (cp ''completado'') None) c1))"

definition completar_proceso_radicacion :: "reloj \<Rightarrow> texto \<Rightarrow> cuenta \<Rightarrow> resultado \<times> cuenta" where
  "completar_proceso_radicacion r fid c =
     (if \<not> tiene_radicacion_activa c then (Falla NoHayRadicacionParaCompletar, c)
      else
        let c1 = c\<lparr>proceso_radicacion_activo := False,
                   tipo_proceso_anterior := RADICACION_COMPLETADA, estado := ACTIVA\<rparr> in
        case crear_cambio_proceso r fid (cp ''radicacion'') (cp ''completar'') None of
          Inl e \<Rightarrow> (Falla e, c1)
        | Inr a \<Rightarrow>
            (Exito, registrar a
               (ProcesoCompletadoEvent (placa c1) (cp ''radicacion'') fid (numero_cuenta c1)
                  (cp ''completado'') None) c1))"

definition devolver_proceso_traslado ::
  "reloj \<Rightarrow> texto \<Rightarrow> texto \<Rightarrow> cuenta \<Rightarrow> resultado \<times> cuenta" where
  "devolver_proceso_traslado r fid mot c =
     (if \<not> tiene_traslado_activo c then (Falla NoHayTrasladoParaDevolver, c)
      else
        let c1 = c\<lparr>proceso_traslado_activo := False,
                   tipo_proceso_anterior := TRASLADO_DEVUELTO, estado := ACTIVA\<rparr> in
        case crear_cambio_proceso r fid (cp ''traslado'') (cp ''devolver'') (Some mot) of
          Inl e \<Rightarrow> (Falla e, c1)
        | Inr a \<Rightarrow>
            (Exito, registrar a
               (ProcesoCompletadoEvent (placa c1) (cp ''traslado'') fid (numero_cuenta c1)
                  (cp ''devuelto'') (Some mot)) c1))"

definition devolver_proceso_radicacion ::
  "reloj \<Rightarrow> texto \<Rightarrow> texto \<Rightarrow> cuenta \<Rightarrow> resultado \<times> cuenta" where
  "devolver_proceso_radicacion r fid mot c =
     (if \<not> tiene_radicacion_activa c then (Falla NoHayRadicacionParaDevolver, c)
      else
        let c1 = c\<lparr>proceso_radicacion_activo := False,
                   tipo_proceso_anterior := RADICACION_DEVUELTA, estado := ACTIVA\<rparr> in
        case crear_cambio_proceso r fid (cp ''radicacion'') (cp ''devolver'') (Some mot) of
          Inl e \<Rightarrow> (Falla e, c1)
        | Inr a \<Rightarrow>
            (Exito, registrar a
               (ProcesoCompletadoEvent (placa c1) (cp ''radicacion'') fid (numero_cuenta c1)
                  (cp ''devuelto'') (Some mot)) c1))"

definition inactivar_cuenta :: "reloj \<Rightarrow> texto \<Rightarrow> texto \<Rightarrow> cuenta \<Rightarrow> resultado \<times> cuenta" where
  "inactivar_cuenta r fid mot c =
     (if tiene_proceso_activo c then (Falla CuentaConProcesosActivos, c)
      else
        let c1 = c\<lparr>estado := INACTIVA\<rparr> in
        case crear_inactivacion r fid mot of
          Inl e \<Rightarrow> (Falla e, c1)
        | Inr a \<Rightarrow> (Exito, registrar a (CuentaInactivadaEvent (placa c1) fid mot) c1))"

definition reactivar_cuenta :: "reloj \<Rightarrow> texto \<Rightarrow> cuenta \<Rightarrow> resultado \<times> cuenta" where
  "reactivar_cuenta r fid c =
     (if estado c \<noteq> INACTIVA then (Falla SoloReactivarInactivas, c)
      else
        let c1 = c\<lparr>estado := ACTIVA\<rparr> in
        case crear_reactivacion r fid of
          Inl e \<Rightarrow> (Falla e, c1)
        | Inr a \<Rightarrow> (Exito, registrar a (CuentaReactivadaEvent (placa c1) fid) c1))"

definition reasignar_funcionario ::
  "reloj \<Rightarrow> texto \<Rightarrow> texto \<Rightarrow> texto \<Rightarrow> texto option \<Rightarrow> cuenta \<Rightarrow> resultado \<times> cuenta" where
  "reasignar_funcionario r nuevo autoriza mot obs c =
     (let funcionario_anterior = get_funcionario_actual c in
        if upper nuevo = funcionario_anterior then (Falla FuncionarioYaAsignado, c)
        else
          case crear_reasignacion_manual r nuevo autoriza mot obs of
            Inl e \<Rightarrow> (Falla e, c)
          | Inr a \<Rightarrow>
              (Exito, registrar a
                 (CuentaReasignadaEvent (placa c) funcionario_anterior nuevo autoriza mot) c))"

text \<open>The dataclass constructor with its \<open>__post_init__\<close>; both activo flags start unset.\<close>

definition Cuenta ::
  "reloj \<Rightarrow> texto \<Rightarrow> numero_cuenta \<Rightarrow> texto \<Rightarrow> int \<Rightarrow> texto \<Rightarrow> estado_cuenta
     \<Rightarrow> historial_asignacion list \<Rightarrow> error + cuenta" where
  "Cuenta r p n ts fc creador est hist =
     (if creador = [] \<or> strip creador = [] then Inl FuncionarioCreadorVacio
      else
        let creador_normalizado = upper (strip creador) in
        case (if hist = []
              then (case crear_asignacion_inicial r creador_normalizado fc of
                      Inl e \<Rightarrow> Inl e | Inr a \<Rightarrow> Inr (hist @ [a]))
              else Inr hist) of
          Inl e \<Rightarrow> Inl e
        | Inr hist1 \<Rightarrow>
            let c = \<lparr>placa = p, numero_cuenta = n, tipo_servicio = ts, fecha_creacion = fc,
                     funcionario_creador = creador_normalizado, estado = est,
                     historial_asignaciones = hist1, domain_events = [],
                     tipo_proceso_anterior = NINGUNO, proceso_traslado_activo = False,
                     proceso_radicacion_activo = False\<rparr> in
            case validar_coherencia_estado c of
              Some e \<Rightarrow> Inl e
            | None \<Rightarrow>
                Inr (if (case hist1 of [h] \<Rightarrow> es_asignacion_inicial h | _ \<Rightarrow> False)
                     then c\<lparr>domain_events :=
                              [CuentaCreadaEvent p n ts creador_normalizado]\<rparr>
                     else c))"

text \<open>
  \<open>NumeroCuenta.generar_para_hoy\<close>: the consecutivo is checked; the number made from
  today's date then passes the format checks of \<open>NumeroCuenta\<close> for a clock between the
  years 1900 and 2100.
\<close>

definition generar_para_hoy :: "reloj \<Rightarrow> int \<Rightarrow> error + numero_cuenta" where
  "generar_para_hoy r consecutivo =
     (if consecutivo < 1 \<or> consecutivo > 99999 then Inl ConsecutivoInvalido
      else Inr \<lparr>nc_fecha = hoy r, nc_consecutivo = consecutivo\<rparr>)"

definition crear_nueva_cuenta ::
  "reloj \<Rightarrow> texto \<Rightarrow> texto \<Rightarrow> texto \<Rightarrow> int option \<Rightarrow> error + cuenta" where
  "crear_nueva_cuenta r p ts creador consecutivo_cuenta =
     (case generar_para_hoy r (case consecutivo_cuenta of Some k \<Rightarrow> k | None \<Rightarrow> 1) of
        Inl e \<Rightarrow> Inl e
      | Inr n \<Rightarrow> Cuenta r p n ts (hoy r) creador ACTIVA [])"

definition crear_desde_repositorio ::
  "texto \<Rightarrow> numero_cuenta \<Rightarrow> texto \<Rightarrow> estado_cuenta \<Rightarrow> int \<Rightarrow> texto \<Rightarrow> historial_asignacion list
     \<Rightarrow> tipo_proceso_anterior \<Rightarrow> bool \<Rightarrow> bool \<Rightarrow> error + cuenta" where
  "crear_desde_repositorio p n ts est fc creador historial anterior traslado_activo
       radicacion_activa =
     (let c = \<lparr>placa = p, numero_cuenta = n, tipo_servicio = ts, fecha_creacion = fc,
               funcionario_creador = upper (strip creador), estado = est,
               historial_asignaciones = historial, domain_events = [],
               tipo_proceso_anterior = anterior, proceso_traslado_activo = traslado_activo,
               proceso_radicacion_activo = radicacion_activa\<rparr> in
        if funcionario_creador c = [] \<or> strip (funcionario_creador c) = []
        then Inl FuncionarioCreadorVacio
        else case validar_coherencia_estado c of Some e \<Rightarrow> Inl e | None \<Rightarrow> Inr c)"

datatype comando =
    IniciarProcesoTraslado texto
  | IniciarProcesoRadicacion texto
  | CompletarProcesoTraslado texto
  | CompletarProcesoRadicacion texto
  | DevolverProcesoTraslado texto texto
  | DevolverProcesoRadicacion texto texto
  | InactivarCuenta texto texto
  | ReactivarCuenta texto
  | ReasignarFuncionario texto texto texto "texto option"

fun ejecutar :: "reloj \<Rightarrow> comando \<Rightarrow> cuenta \<Rightarrow> resultado \<times> cuenta" where
  "ejecutar r (IniciarProcesoTraslado f) c = iniciar_proceso_traslado r f c"
| "ejecutar r (IniciarProcesoRadicacion f) c = iniciar_proceso_radicacion r f c"
| "ejecutar r (CompletarProcesoTraslado f) c = completar_proceso_traslado r f c"
| "ejecutar r (CompletarProcesoRadicacion f) c = completar_proceso_radicacion r f c"
| "ejecutar r (DevolverProcesoTraslado f m) c = devolver_proceso_traslado r f m c"
| "ejecutar r (DevolverProcesoRadicacion f m) c = devolver_proceso_radicacion r f m c"
| "ejecutar r (InactivarCuenta f m) c = inactivar_cuenta r f m c"
| "ejecutar r (ReactivarCuenta f) c = reactivar_cuenta r f c"
| "ejecutar r (ReasignarFuncionario nuevo autoriza m ob) c =
     reasignar_funcionario r nuevo autoriza m ob c"


section \<open>Traslado\<close>

datatype estado_traslado =
  ENVIADO_ORGANISMO_DESTINO | REVISADO | CON_NOVEDADES | TRASLADADO | DEVUELTO

definition t_get_transiciones_permitidas :: "estado_traslado \<Rightarrow> estado_traslado list" where
  "t_get_transiciones_permitidas s =
     (case s of
        ENVIADO_ORGANISMO_DESTINO \<Rightarrow> [REVISADO]
      | REVISADO \<Rightarrow> [TRASLADADO, CON_NOVEDADES]
      | CON_NOVEDADES \<Rightarrow> [REVISADO]
      | TRASLADADO \<Rightarrow> []
      | DEVUELTO \<Rightarrow> [])"

definition t_puede_transicionar_a :: "estado_traslado \<Rightarrow> estado_traslado \<Rightarrow> bool \<Rightarrow> bool" where
  "t_puede_transicionar_a s nuevo es_admin =
     (if es_admin \<and> nuevo = DEVUELTO then True
      else nuevo \<in> set (t_get_transiciones_permitidas s))"

definition t_es_estado_final :: "estado_traslado \<Rightarrow> bool" where
  "t_es_estado_final s \<longleftrightarrow> s \<in> set [TRASLADADO, DEVUELTO]"

text \<open>
  \<open>Ubicacion\<close> is frozen; \<open>nombre_corto\<close> is the value of \<open>get_nombre_corto()\<close>, which
  the source derives from \<open>codigo\<close>. Dates are day numbers.
\<close>

record ubicacion =
  codigo :: texto
  nombre_corto :: texto

record traslado =
  t_placa :: texto
  organismo_destino :: ubicacion
  t_fecha_tramite :: int
  t_fecha_vencimiento :: int
  funcionario_envia :: texto
  t_estado :: estado_traslado
  t_observaciones :: observacion
  t_funcionario_actual :: "texto option"
  t_fecha_ultima_actualizacion :: "int option"
  t_domain_events :: "evento list"

definition t_get_domain_events :: "traslado \<Rightarrow> evento list \<times> traslado" where
  "t_get_domain_events t = (t_domain_events t, t\<lparr>t_domain_events := []\<rparr>)"

definition t_esta_en_estado_final :: "traslado \<Rightarrow> bool" where
  "t_esta_en_estado_final t = t_es_estado_final (t_estado t)"

definition t_puede_pasar_a_revision :: "traslado \<Rightarrow> bool" where
  "t_puede_pasar_a_revision t \<longleftrightarrow> t_estado t = ENVIADO_ORGANISMO_DESTINO"

definition puede_completar_traslado :: "traslado \<Rightarrow> bool" where
  "puede_completar_traslado t \<longleftrightarrow> t_estado t = REVISADO"

definition t_puede_reportar_novedad :: "traslado \<Rightarrow> bool" where
  "t_puede_reportar_novedad t \<longleftrightarrow> t_estado t = REVISADO"

definition t_puede_resolver_novedad :: "traslado \<Rightarrow> bool" where
  "t_puede_resolver_novedad t \<longleftrightarrow> t_estado t = CON_NOVEDADES"

definition puede_ser_devuelto :: "traslado \<Rightarrow> bool \<Rightarrow> bool" where
  "puede_ser_devuelto t es_admin =
     (if es_admin then \<not> t_esta_en_estado_final t
      else t_puede_transicionar_a (t_estado t) DEVUELTO es_admin)"

text \<open>
  The two lines that most transitions end with:
  \<open>Observacion.crear_con_timestamp(texto, funcionario)\<close>, then
  \<open>Observacion.combinar_observaciones([self.observaciones, entrada])\<close>.
\<close>

definition agregar_entrada ::
  "reloj \<Rightarrow> texto \<Rightarrow> texto \<Rightarrow> observacion \<Rightarrow> error + observacion" where
  "agregar_entrada r t funcionario actual =
     (case crear_con_timestamp r t funcionario of
        Inl e \<Rightarrow> Inl e
      | Inr entrada \<Rightarrow> combinar_observaciones [actual, entrada])"

definition marcar_como_revisado :: "reloj \<Rightarrow> texto \<Rightarrow> traslado \<Rightarrow> resultado \<times> traslado" where
  "marcar_como_revisado r f t =
     (if \<not> t_puede_pasar_a_revision t then (Falla NoPuedePasarARevision, t)
      else (Exito, t\<lparr>t_estado := REVISADO,
                     t_funcionario_actual := Some (upper (strip f)),
                     t_fecha_ultima_actualizacion := Some (hoy r)\<rparr>))"

definition completar_traslado ::
  "reloj \<Rightarrow> texto \<Rightarrow> texto option \<Rightarrow> traslado \<Rightarrow> resultado \<times> traslado" where
  "completar_traslado r f observaciones_finales t =
     (if \<not> puede_completar_traslado t then (Falla NoPuedeCompletar, t)
      else
        let t1 = t\<lparr>t_estado := TRASLADADO,
                   t_funcionario_actual := Some (upper (strip f)),
                   t_fecha_ultima_actualizacion := Some (hoy r)\<rparr> in
        case observaciones_finales of
          None \<Rightarrow> (Exito, t1)
        | Some fin \<Rightarrow>
            if fin = [] then (Exito, t1)
            else
              case agregar_timestamp_automatico r (t_observaciones t1) f of
                Inl e \<Rightarrow> (Falla e, t1)
              | Inr ob \<Rightarrow>
                  (case crear_desde_texto (valor ob @ [10] @ cp ''COMPLETADO: '' @ fin) of
                     Inl e \<Rightarrow> (Falla e, t1)
                   | Inr nueva \<Rightarrow> (Exito, t1\<lparr>t_observaciones := nueva\<rparr>)))"

definition t_reportar_novedad ::
  "reloj \<Rightarrow> texto \<Rightarrow> texto \<Rightarrow> traslado \<Rightarrow> resultado \<times> traslado" where
  "t_reportar_novedad r f descripcion_novedad t =
     (if \<not> t_puede_reportar_novedad t then (Falla NoPuedeReportarNovedad, t)
      else
        let t1 = t\<lparr>t_estado := CON_NOVEDADES,
                   t_funcionario_actual := Some (upper (strip f)),
                   t_fecha_ultima_actualizacion := Some (hoy r)\<rparr> in
        case agregar_entrada r (cp ''NOVEDAD REPORTADA: '' @ descripcion_novedad) f
               (t_observaciones t1) of
          Inl e \<Rightarrow> (Falla e, t1)
        | Inr nueva \<Rightarrow> (Exito, t1\<lparr>t_observaciones := nueva\<rparr>))"

definition t_resolver_novedad ::
  "reloj \<Rightarrow> texto \<Rightarrow> texto \<Rightarrow> traslado \<Rightarrow> resultado \<times> traslado" where
  "t_resolver_novedad r f descripcion_res t =
     (if \<not> t_puede_resolver_novedad t then (Falla NoPuedeResolverNovedad, t)
      else
        let t1 = t\<lparr>t_estado := REVISADO,
                   t_funcionario_actual := Some (upper (strip f)),
                   t_fecha_ultima_actualizacion := Some (hoy r)\<rparr> in
        case agregar_entrada r (cp ''NOVEDAD RESUELTA: '' @ descripcion_res) f
               (t_observaciones t1) of
          Inl e \<Rightarrow> (Falla e, t1)
        | Inr nueva \<Rightarrow> (Exito, t1\<lparr>t_observaciones := nueva\<rparr>))"

definition devolver_traslado ::
  "reloj \<Rightarrow> texto \<Rightarrow> texto \<Rightarrow> bool \<Rightarrow> traslado \<Rightarrow> resultado \<times> traslado" where
  "devolver_traslado r f motivo_devolucion es_admin t =
     (if \<not> puede_ser_devuelto t es_admin then (Falla NoPuedeDevolver, t)
      else
        let t1 = t\<lparr>t_estado := DEVUELTO,
                   t_funcionario_actual := Some (upper (strip f)),
                   t_fecha_ultima_actualizacion := Some (hoy r)\<rparr> in
        case agregar_entrada r (cp ''TRASLADO DEVUELTO: '' @ motivo_devolucion) f
               (t_observaciones t1) of
          Inl e \<Rightarrow> (Falla e, t1)
        | Inr nueva \<Rightarrow> (Exito, t1\<lparr>t_observaciones := nueva\<rparr>))"

definition t_actualizar_observaciones ::
  "reloj \<Rightarrow> texto \<Rightarrow> texto \<Rightarrow> traslado \<Rightarrow> resultado \<times> traslado" where
  "t_actualizar_observaciones r f nuevas t =
     (if t_esta_en_estado_final t then (Falla ObservacionesEnEstadoFinal, t)
      else
        case agregar_entrada r nuevas f (t_observaciones t) of
          Inl e \<Rightarrow> (Falla e, t)
        | Inr nueva \<Rightarrow>
            (Exito, t\<lparr>t_observaciones := nueva,
                      t_fecha_ultima_actualizacion := Some (hoy r)\<rparr>))"

definition t_crear_desde_repositorio ::
  "texto \<Rightarrow> ubicacion \<Rightarrow> int \<Rightarrow> int \<Rightarrow> texto \<Rightarrow> estado_traslado \<Rightarrow> observacion \<Rightarrow> texto option
     \<Rightarrow> int option \<Rightarrow> error + traslado" where
  "t_crear_desde_repositorio p destino tramite vencimiento envia est obs actual ultima =
     (let t = \<lparr>t_placa = p, organismo_destino = destino, t_fecha_tramite = tramite,
               t_fecha_vencimiento = vencimiento, funcionario_envia = upper (strip envia),
               t_estado = est, t_observaciones = obs, t_funcionario_actual = actual,
               t_fecha_ultima_actualizacion = ultima, t_domain_events = []\<rparr> in
        if funcionario_envia t = [] \<or> strip (funcionario_envia t) = []
        then Inl FuncionarioProcesoVacio
        else if t_fecha_vencimiento t \<le> t_fecha_tramite t then Inl VencimientoNoPosterior
        else Inr t)"

datatype comando_traslado =
    MarcarComoRevisado texto
  | CompletarTraslado texto "texto option"
  | TReportarNovedad texto texto
  | TResolverNovedad texto texto
  | DevolverTraslado texto texto bool
  | TActualizarObservaciones texto texto

fun ejecutar_traslado :: "reloj \<Rightarrow> comando_traslado \<Rightarrow> traslado \<Rightarrow> resultado \<times> traslado" where
  "ejecutar_traslado r (MarcarComoRevisado f) t = marcar_como_revisado r f t"
| "ejecutar_traslado r (CompletarTraslado f ob) t = completar_traslado r f ob t"
| "ejecutar_traslado r (TReportarNovedad f d) t = t_reportar_novedad r f d t"
| "ejecutar_traslado r (TResolverNovedad f d) t = t_resolver_novedad r f d t"
| "ejecutar_traslado r (DevolverTraslado f m adm) t = devolver_traslado r f m adm t"
| "ejecutar_traslado r (TActualizarObservaciones f ob) t = t_actualizar_observaciones r f ob t"

section \<open>Radicacion\<close>

datatype estado_radicacion =
  PENDIENTE_RADICAR | RECIBIDO | R_REVISADO | R_CON_NOVEDADES | RADICADO | R_DEVUELTO

definition r_get_transiciones_permitidas :: "estado_radicacion \<Rightarrow> estado_radicacion list" where
  "r_get_transiciones_permitidas s =
     (case s of
        PENDIENTE_RADICAR \<Rightarrow> [RECIBIDO]
      | RECIBIDO \<Rightarrow> [R_REVISADO]
      | R_REVISADO \<Rightarrow> [RADICADO, R_CON_NOVEDADES]
      | R_CON_NOVEDADES \<Rightarrow> [R_REVISADO]
      | RADICADO \<Rightarrow> []
      | R_DEVUELTO \<Rightarrow> [])"

definition r_puede_transicionar_a ::
  "estado_radicacion \<Rightarrow> estado_radicacion \<Rightarrow> bool \<Rightarrow> bool" where
  "r_puede_transicionar_a s nuevo es_admin =
     (if es_admin \<and> nuevo = R_DEVUELTO then True
      else nuevo \<in> set (r_get_transiciones_permitidas s))"

definition r_es_estado_final :: "estado_radicacion \<Rightarrow> bool" where
  "r_es_estado_final s \<longleftrightarrow> s \<in> set [RADICADO, R_DEVUELTO]"

text \<open>
  \<open>fue_recibida_flag\<close> is the private \<open>_fue_recibida\<close>, a dataclass field with default
  \<open>False\<close>.
\<close>

record radicacion =
  r_placa :: texto
  organismo_origen :: ubicacion
  r_fecha_tramite :: int
  r_fecha_vencimiento :: int
  funcionario_recibe :: texto
  r_estado :: estado_radicacion
  r_observaciones :: observacion
  r_funcionario_actual :: "texto option"
  r_fecha_ultima_actualizacion :: "int option"
  r_domain_events :: "evento list"
  fue_recibida_flag :: bool

definition r_get_domain_events :: "radicacion \<Rightarrow> evento list \<times> radicacion" where
  "r_get_domain_events x = (r_domain_events x, x\<lparr>r_domain_events := []\<rparr>)"

definition fue_recibida :: "radicacion \<Rightarrow> bool" where
  "fue_recibida x = fue_recibida_flag x"

definition r_esta_en_estado_final :: "radicacion \<Rightarrow> bool" where
  "r_esta_en_estado_final x = r_es_estado_final (r_estado x)"

definition puede_ser_recibida :: "radicacion \<Rightarrow> bool" where
  "puede_ser_recibida x \<longleftrightarrow> r_estado x = PENDIENTE_RADICAR"

definition r_puede_pasar_a_revision :: "radicacion \<Rightarrow> bool" where
  "r_puede_pasar_a_revision x \<longleftrightarrow> r_estado x = RECIBIDO"

definition puede_completar_radicacion :: "radicacion \<Rightarrow> bool" where
  "puede_completar_radicacion x \<longleftrightarrow> r_estado x = R_REVISADO"

definition r_puede_reportar_novedad :: "radicacion \<Rightarrow> bool" where
  "r_puede_reportar_novedad x \<longleftrightarrow> r_estado x = R_REVISADO"

definition r_puede_resolver_novedad :: "radicacion \<Rightarrow> bool" where
  "r_puede_resolver_novedad x \<longleftrightarrow> r_estado x = R_CON_NOVEDADES"

definition puede_ser_devuelta :: "radicacion \<Rightarrow> bool \<Rightarrow> bool" where
  "puede_ser_devuelta x es_admin =
     (if es_admin then \<not> r_esta_en_estado_final x
      else r_puede_transicionar_a (r_estado x) R_DEVUELTO es_admin)"

text \<open>
  The fixed texts of two entries hold an accented letter: \<open>Radicaci\<close>, U+00F3,
  \<open>n recibida del\<close> and \<open>RADICACI\<close>, U+00D3, \<open>N DEVUELTA:\<close>.
\<close>

definition marcar_como_recibida :: "reloj \<Rightarrow> texto \<Rightarrow> radicacion \<Rightarrow> resultado \<times> radicacion" where
  "marcar_como_recibida r f x =
     (if \<not> puede_ser_recibida x then (Falla NoPuedeRecibir, x)
      else
        let x1 = x\<lparr>r_estado := RECIBIDO,
                   r_funcionario_actual := Some (upper (strip f)),
                   r_fecha_ultima_actualizacion := Some (hoy r),
                   fue_recibida_flag := True\<rparr> in
        case agregar_entrada r
               (cp ''Radicaci'' @ [243] @ cp ''n recibida del '' @
                  nombre_corto (organismo_origen x1)) f (r_observaciones x1) of
          Inl e \<Rightarrow> (Falla e, x1)
        | Inr nueva \<Rightarrow> (Exito, x1\<lparr>r_observaciones := nueva\<rparr>))"

definition marcar_como_revisada :: "reloj \<Rightarrow> texto \<Rightarrow> radicacion \<Rightarrow> resultado \<times> radicacion" where
  "marcar_como_revisada r f x =
     (if \<not> r_puede_pasar_a_revision x then (Falla NoPuedePasarARevision, x)
      else (Exito, x\<lparr>r_estado := R_REVISADO,
                     r_funcionario_actual := Some (upper (strip f)),
                     r_fecha_ultima_actualizacion := Some (hoy r)\<rparr>))"

definition completar_radicacion ::
  "reloj \<Rightarrow> texto \<Rightarrow> texto option \<Rightarrow> radicacion \<Rightarrow> resultado \<times> radicacion" where
  "completar_radicacion r f observaciones_finales x =
     (if \<not> puede_completar_radicacion x then (Falla NoPuedeCompletar, x)
      else
        let x1 = x\<lparr>r_estado := RADICADO,
                   r_funcionario_actual := Some (upper (strip f)),
                   r_fecha_ultima_actualizacion := Some (hoy r)\<rparr> in
        case observaciones_finales of
          None \<Rightarrow> (Exito, x1)
        | Some fin \<Rightarrow>
            if fin = [] then (Exito, x1)
            else
              case agregar_timestamp_automatico r (r_observaciones x1) f of
                Inl e \<Rightarrow> (Falla e, x1)
              | Inr ob \<Rightarrow>
                  (case crear_desde_texto (valor ob @ [10] @ cp ''COMPLETADA: '' @ fin) of
                     Inl e \<Rightarrow> (Falla e, x1)
                   | Inr nueva \<Rightarrow> (Exito, x1\<lparr>r_observaciones := nueva\<rparr>)))"

definition r_reportar_novedad ::
  "reloj \<Rightarrow> texto \<Rightarrow> texto \<Rightarrow> radicacion \<Rightarrow> resultado \<times> radicacion" where
  "r_reportar_novedad r f descripcion_novedad x =
     (if \<not> r_puede_reportar_novedad x then (Falla NoPuedeReportarNovedad, x)
      else
        let x1 = x\<lparr>r_estado := R_CON_NOVEDADES,
                   r_funcionario_actual := Some (upper (strip f)),
                   r_fecha_ultima_actualizacion := Some (hoy r)\<rparr> in
        case agregar_entrada r (cp ''NOVEDAD REPORTADA: '' @ descripcion_novedad) f
               (r_observaciones x1) of
          Inl e \<Rightarrow> (Falla e, x1)
        | Inr nueva \<Rightarrow> (Exito, x1\<lparr>r_observaciones := nueva\<rparr>))"

definition r_resolver_novedad ::
  "reloj \<Rightarrow> texto \<Rightarrow> texto \<Rightarrow> radicacion \<Rightarrow> resultado \<times> radicacion" where
  "r_resolver_novedad r f descripcion_res x =
     (if \<not> r_puede_resolver_novedad x then (Falla NoPuedeResolverNovedad, x)
      else
        let x1 = x\<lparr>r_estado := R_REVISADO,
                   r_funcionario_actual := Some (upper (strip f)),
                   r_fecha_ultima_actualizacion := Some (hoy r)\<rparr> in
        case agregar_entrada r (cp ''NOVEDAD RESUELTA: '' @ descripcion_res) f
               (r_observaciones x1) of
          Inl e \<Rightarrow> (Falla e, x1)
        | Inr nueva \<Rightarrow> (Exito, x1\<lparr>r_observaciones := nueva\<rparr>))"

definition devolver_radicacion ::
  "reloj \<Rightarrow> texto \<Rightarrow> texto \<Rightarrow> bool \<Rightarrow> radicacion \<Rightarrow> resultado \<times> radicacion" where
  "devolver_radicacion r f motivo_devolucion es_admin x =
     (if \<not> puede_ser_devuelta x es_admin then (Falla NoPuedeDevolver, x)
      else
        let x1 = x\<lparr>r_estado := R_DEVUELTO,
                   r_funcionario_actual := Some (upper (strip f)),
                   r_fecha_ultima_actualizacion := Some (hoy r)\<rparr> in
        case agregar_entrada r
               (cp ''RADICACI'' @ [211] @ cp ''N DEVUELTA: '' @ motivo_devolucion) f
               (r_observaciones x1) of
          Inl e \<Rightarrow> (Falla e, x1)
        | Inr nueva \<Rightarrow> (Exito, x1\<lparr>r_observaciones := nueva\<rparr>))"

definition r_actualizar_observaciones ::
  "reloj \<Rightarrow> texto \<Rightarrow> texto \<Rightarrow> radicacion \<Rightarrow> resultado \<times> radicacion" where
  "r_actualizar_observaciones r f nuevas x =
     (if r_esta_en_estado_final x then (Falla ObservacionesEnEstadoFinal, x)
      else
        case agregar_entrada r nuevas f (r_observaciones x) of
          Inl e \<Rightarrow> (Falla e, x)
        | Inr nueva \<Rightarrow>
            (Exito, x\<lparr>r_observaciones := nueva,
                      r_fecha_ultima_actualizacion := Some (hoy r)\<rparr>))"

text \<open>
  \<open>Radicacion.crear_desde_repositorio\<close> builds the object with \<open>object.__new__\<close> and
  sets every field but \<open>_fue_recibida\<close>, which therefore reads as its class default.
\<close>

definition r_crear_desde_repositorio ::
  "texto \<Rightarrow> ubicacion \<Rightarrow> int \<Rightarrow> int \<Rightarrow> texto \<Rightarrow> estado_radicacion \<Rightarrow> observacion
     \<Rightarrow> texto option \<Rightarrow> int option \<Rightarrow> error + radicacion" where
  "r_crear_desde_repositorio p origen tramite vencimiento recibe est obs actual ultima =
     (let x = \<lparr>r_placa = p, organismo_origen = origen, r_fecha_tramite = tramite,
               r_fecha_vencimiento = vencimiento, funcionario_recibe = upper (strip recibe),
               r_estado = est, r_observaciones = obs, r_funcionario_actual = actual,
               r_fecha_ultima_actualizacion = ultima, r_domain_events = [],
               fue_recibida_flag = False\<rparr> in
        if funcionario_recibe x = [] \<or> strip (funcionario_recibe x) = []
        then Inl FuncionarioProcesoVacio
        else if r_fecha_vencimiento x \<le> r_fecha_tramite x then Inl VencimientoNoPosterior
        else Inr x)"

datatype comando_radicacion =
    MarcarComoRecibida texto
  | MarcarComoRevisada texto
  | CompletarRadicacion texto "texto option"
  | RReportarNovedad texto texto
  | RResolverNovedad texto texto
  | DevolverRadicacion texto texto bool
  | RActualizarObservaciones texto texto

fun ejecutar_radicacion ::
  "reloj \<Rightarrow> comando_radicacion \<Rightarrow> radicacion \<Rightarrow> resultado \<times> radicacion" where
  "ejecutar_radicacion r (MarcarComoRecibida f) x = marcar_como_recibida r f x"
| "ejecutar_radicacion r (MarcarComoRevisada f) x = marcar_como_revisada r f x"
| "ejecutar_radicacion r (CompletarRadicacion f ob) x = completar_radicacion r f ob x"
| "ejecutar_radicacion r (RReportarNovedad f d) x = r_reportar_novedad r f d x"
| "ejecutar_radicacion r (RResolverNovedad f d) x = r_resolver_novedad r f d x"
| "ejecutar_radicacion r (DevolverRadicacion f m adm) x = devolver_radicacion r f m adm x"
| "ejecutar_radicacion r (RActualizarObservaciones f ob) x =
     r_actualizar_observaciones r f ob x"


section \<open>Novedad\<close>

datatype estado_novedad = PENDIENTE | EN_REVISION | RESUELTA | REABIERTA

datatype prioridad_novedad = BAJA | MEDIA | ALTA | CRITICA

definition n_get_transiciones_permitidas :: "estado_novedad \<Rightarrow> estado_novedad list" where
  "n_get_transiciones_permitidas s =
     (case s of
        PENDIENTE \<Rightarrow> [EN_REVISION, RESUELTA]
      | EN_REVISION \<Rightarrow> [RESUELTA, PENDIENTE]
      | RESUELTA \<Rightarrow> [REABIERTA]
      | REABIERTA \<Rightarrow> [EN_REVISION, RESUELTA])"

definition n_puede_transicionar_a :: "estado_novedad \<Rightarrow> estado_novedad \<Rightarrow> bool" where
  "n_puede_transicionar_a s nuevo \<longleftrightarrow> nuevo \<in> set (n_get_transiciones_permitidas s)"

text \<open>\<open>prioridad.value.upper()\<close>\<close>

definition prioridad_valor_upper :: "prioridad_novedad \<Rightarrow> texto" where
  "prioridad_valor_upper p =
     (case p of BAJA \<Rightarrow> cp ''BAJA'' | MEDIA \<Rightarrow> cp ''MEDIA'' | ALTA \<Rightarrow> cp ''ALTA''
      | CRITICA \<Rightarrow> cp ''CRITICA'')"

text \<open>
  \<open>identificador\<close>, \<open>tipo_novedad\<close> and \<open>descripcion\<close> are validated values that no
  command reads; they are kept as their texts.
\<close>

record novedad =
  identificador :: texto
  n_placa :: texto
  tipo_novedad :: texto
  descripcion :: texto
  prioridad :: prioridad_novedad
  funcionario_reporta :: texto
  fecha_reporte :: int
  tipo_proceso :: texto
  n_estado :: estado_novedad
  n_observaciones :: observacion
  funcionario_resuelve :: "texto option"
  fecha_resolucion :: "int option"
  descripcion_resolucion :: "texto option"
  n_funcionario_actual :: "texto option"
  n_fecha_ultima_actualizacion :: "int option"
  n_domain_events :: "evento list"

definition n_get_domain_events :: "novedad \<Rightarrow> evento list \<times> novedad" where
  "n_get_domain_events n = (n_domain_events n, n\<lparr>n_domain_events := []\<rparr>)"

definition esta_resuelta :: "novedad \<Rightarrow> bool" where
  "esta_resuelta n \<longleftrightarrow> n_estado n = RESUELTA"

definition n_puede_pasar_a_revision :: "novedad \<Rightarrow> bool" where
  "n_puede_pasar_a_revision n = n_puede_transicionar_a (n_estado n) EN_REVISION"

definition puede_ser_resuelta :: "novedad \<Rightarrow> bool" where
  "puede_ser_resuelta n = n_puede_transicionar_a (n_estado n) RESUELTA"

definition puede_ser_reabierta :: "novedad \<Rightarrow> bool" where
  "puede_ser_reabierta n = n_puede_transicionar_a (n_estado n) REABIERTA"

definition puede_cambiar_prioridad :: "novedad \<Rightarrow> bool" where
  "puede_cambiar_prioridad n \<longleftrightarrow> \<not> esta_resuelta n"

definition tomar_en_revision :: "reloj \<Rightarrow> texto \<Rightarrow> novedad \<Rightarrow> resultado \<times> novedad" where
  "tomar_en_revision r f n =
     (if \<not> n_puede_pasar_a_revision n then (Falla NoPuedePasarARevision, n)
      else
        let n1 = n\<lparr>n_estado := EN_REVISION,
                   n_funcionario_actual := Some (upper (strip f)),
                   n_fecha_ultima_actualizacion := Some (hoy r)\<rparr> in
        case agregar_entrada r
               (cp ''Novedad tomada en revisi'' @ [243] @ cp ''n por '' @ f) f
               (n_observaciones n1) of
          Inl e \<Rightarrow> (Falla e, n1)
        | Inr nueva \<Rightarrow> (Exito, n1\<lparr>n_observaciones := nueva\<rparr>))"

definition resolver_novedad :: "reloj \<Rightarrow> texto \<Rightarrow> texto \<Rightarrow> novedad \<Rightarrow> resultado \<times> novedad" where
  "resolver_novedad r f descripcion_res n =
     (if \<not> puede_ser_resuelta n then (Falla NoPuedeResolver, n)
      else if descripcion_res = [] \<or> strip descripcion_res = []
        then (Falla DescripcionResolucionVacia, n)
      else
        let n1 = n\<lparr>n_estado := RESUELTA,
                   funcionario_resuelve := Some (upper (strip f)),
                   n_funcionario_actual := Some (upper (strip f)),
                   fecha_resolucion := Some (hoy r),
                   n_fecha_ultima_actualizacion := Some (hoy r),
                   descripcion_resolucion := Some (strip descripcion_res)\<rparr> in
        case agregar_entrada r (cp ''NOVEDAD RESUELTA: '' @ descripcion_res) f
               (n_observaciones n1) of
          Inl e \<Rightarrow> (Falla e, n1)
        | Inr nueva \<Rightarrow> (Exito, n1\<lparr>n_observaciones := nueva\<rparr>))"

definition reabrir_novedad :: "reloj \<Rightarrow> texto \<Rightarrow> texto \<Rightarrow> novedad \<Rightarrow> resultado \<times> novedad" where
  "reabrir_novedad r f motivo_reapertura n =
     (if \<not> puede_ser_reabierta n then (Falla NoPuedeReabrir, n)
      else if motivo_reapertura = [] \<or> strip motivo_reapertura = []
        then (Falla MotivoReaperturaVacio, n)
      else
        let n1 = n\<lparr>n_estado := REABIERTA,
                   n_funcionario_actual := Some (upper (strip f)),
                   n_fecha_ultima_actualizacion := Some (hoy r),
                   funcionario_resuelve := None,
                   fecha_resolucion := None,
                   descripcion_resolucion := None\<rparr> in
        case agregar_entrada r (cp ''NOVEDAD REABIERTA: '' @ motivo_reapertura) f
               (n_observaciones n1) of
          Inl e \<Rightarrow> (Falla e, n1)
        | Inr nueva \<Rightarrow> (Exito, n1\<lparr>n_observaciones := nueva\<rparr>))"

definition cambiar_prioridad ::
  "reloj \<Rightarrow> texto \<Rightarrow> prioridad_novedad \<Rightarrow> texto \<Rightarrow> novedad \<Rightarrow> resultado \<times> novedad" where
  "cambiar_prioridad r f nueva_prioridad justificacion n =
     (if \<not> puede_cambiar_prioridad n then (Falla PrioridadDeResuelta, n)
      else if nueva_prioridad = prioridad n then (Falla PrioridadIgual, n)
      else if justificacion = [] \<or> strip justificacion = [] then (Falla JustificacionVacia, n)
      else
        let prioridad_anterior = prioridad n;
            n1 = n\<lparr>prioridad := nueva_prioridad,
                   n_funcionario_actual := Some (upper (strip f)),
                   n_fecha_ultima_actualizacion := Some (hoy r)\<rparr> in
        case agregar_entrada r
               (cp ''PRIORIDAD CAMBIADA: De '' @ prioridad_valor_upper prioridad_anterior @
                  cp '' a '' @ prioridad_valor_upper nueva_prioridad @ cp ''. '' @
                  justificacion) f (n_observaciones n1) of
          Inl e \<Rightarrow> (Falla e, n1)
        | Inr nueva \<Rightarrow> (Exito, n1\<lparr>n_observaciones := nueva\<rparr>))"

definition n_actualizar_observaciones ::
  "reloj \<Rightarrow> texto \<Rightarrow> texto \<Rightarrow> novedad \<Rightarrow> resultado \<times> novedad" where
  "n_actualizar_observaciones r f nuevas n =
     (if esta_resuelta n then (Falla ObservacionesDeResuelta, n)
      else
        case agregar_entrada r nuevas f (n_observaciones n) of
          Inl e \<Rightarrow> (Falla e, n)
        | Inr nueva \<Rightarrow>
            (Exito, n\<lparr>n_observaciones := nueva,
                      n_fecha_ultima_actualizacion := Some (hoy r)\<rparr>))"

datatype comando_novedad =
    TomarEnRevision texto
  | ResolverNovedad texto texto
  | ReabrirNovedad texto texto
  | CambiarPrioridad texto prioridad_novedad texto
  | NActualizarObservaciones texto texto

fun ejecutar_novedad :: "reloj \<Rightarrow> comando_novedad \<Rightarrow> novedad \<Rightarrow> resultado \<times> novedad" where
  "ejecutar_novedad r (TomarEnRevision f) n = tomar_en_revision r f n"
| "ejecutar_novedad r (ResolverNovedad f d) n = resolver_novedad r f d n"
| "ejecutar_novedad r (ReabrirNovedad f m) n = reabrir_novedad r f m n"
| "ejecutar_novedad r (CambiarPrioridad f p j) n = cambiar_prioridad r f p j n"
| "ejecutar_novedad r (NActualizarObservaciones f ob) n = n_actualizar_observaciones r f ob n"


section \<open>The coherence invariant and the reachable accounts\<close>

definition coherentes :: "estado_cuenta \<Rightarrow> bool \<Rightarrow> bool \<Rightarrow> bool" where
  "coherentes est traslado_activo radicacion_activa \<longleftrightarrow>
     (traslado_activo \<and> radicacion_activa) = False \<and>
     (est = EN_TRASLADO) = traslado_activo \<and>
     (est = EN_RADICACION) = radicacion_activa \<and>
     (est \<in> {ACTIVA, INACTIVA}) = (\<not> traslado_activo \<and> \<not> radicacion_activa)"

definition coherente :: "cuenta \<Rightarrow> bool" where
  "coherente c =
     coherentes (estado c) (proceso_traslado_activo c) (proceso_radicacion_activo c)"

text \<open>
  The accounts a caller can hold: the result of either factory, and what any command
  or a drain of the events leaves behind, whether the command returned or raised.
\<close>

inductive alcanzable :: "cuenta \<Rightarrow> bool" where
  nueva: "crear_nueva_cuenta r p ts creador k = Inr c \<Longrightarrow> alcanzable c"
| repositorio:
    "crear_desde_repositorio p n ts est fc creador h ant ta ra = Inr c \<Longrightarrow> alcanzable c"
| comando: "alcanzable c \<Longrightarrow> ejecutar r cmd c = (res, c') \<Longrightarrow> alcanzable c'"
| drenado: "alcanzable c \<Longrightarrow> alcanzable (snd (get_domain_events c))"

text \<open>
  Running commands one after the other, each at its own clock reading, whatever each
  one's outcome; \<open>emitidos\<close> collects, step by step, what the step added at the end of
  the buffer.
\<close>

fun ejecutar_todos :: "(reloj \<times> comando) list \<Rightarrow> cuenta \<Rightarrow> cuenta" where
  "ejecutar_todos [] c = c"
| "ejecutar_todos ((r, cmd) # rest) c = ejecutar_todos rest (snd (ejecutar r cmd c))"

fun emitidos :: "(reloj \<times> comando) list \<Rightarrow> cuenta \<Rightarrow> evento list" where
  "emitidos [] c = []"
| "emitidos ((r, cmd) # rest) c =
     drop (length (domain_events c)) (domain_events (snd (ejecutar r cmd c))) @
     emitidos rest (snd (ejecutar r cmd c))"

section \<open>Example values\<close>

definition reloj_ej :: reloj where
  "reloj_ej = \<lparr>hoy = 20000, ahora = cp ''01/02/2025 10:30''\<rparr>"

definition cuenta_nueva_ej :: cuenta where
  "cuenta_nueva_ej =
     \<lparr>placa = cp ''ABC123'', numero_cuenta = \<lparr>nc_fecha = 20000, nc_consecutivo = 1\<rparr>,
      tipo_servicio = cp ''particular'', fecha_creacion = 20000,
      funcionario_creador = cp ''FUNC001'', estado = ACTIVA,
      historial_asignaciones =
        [\<lparr>funcionario_id = cp ''FUNC001'', fecha_asignacion = 20000,
          motivo = cp ''creacion'', funcionario_asigna = None, tipo_asignacion = CREACION,
          h_observaciones = None\<rparr>],
      domain_events =
        [CuentaCreadaEvent (cp ''ABC123'') \<lparr>nc_fecha = 20000, nc_consecutivo = 1\<rparr>
           (cp ''particular'') (cp ''FUNC001'')],
      tipo_proceso_anterior = NINGUNO, proceso_traslado_activo = False,
      proceso_radicacion_activo = False\<rparr>"

definition cuenta_en_traslado_ej :: cuenta where
  "cuenta_en_traslado_ej =
     cuenta_nueva_ej
       \<lparr>estado := EN_TRASLADO,
        historial_asignaciones :=
          historial_asignaciones cuenta_nueva_ej @
          [\<lparr>funcionario_id = cp ''FUNC001'', fecha_asignacion = 20000,
            motivo = cp ''inicio_traslado'', funcionario_asigna = None,
            tipo_asignacion = INICIO_PROCESO, h_observaciones = None\<rparr>],
        domain_events :=
          domain_events cuenta_nueva_ej @
          [ProcesoIniciadoEvent (cp ''ABC123'') (cp ''traslado'') (cp ''FUNC001'')
             \<lparr>nc_fecha = 20000, nc_consecutivo = 1\<rparr>],
        proceso_traslado_activo := True\<rparr>"

definition ubicacion_ej :: ubicacion where
  "ubicacion_ej = \<lparr>codigo = cp ''BOGOTA_DC'', nombre_corto = cp ''Bogota Dc''\<rparr>"

definition traslado_ej :: traslado where
  "traslado_ej =
     \<lparr>t_placa = cp ''TRA123'', organismo_destino = ubicacion_ej, t_fecha_tramite = 19990,
      t_fecha_vencimiento = 20050, funcionario_envia = cp ''JPEREZ'',
      t_estado = ENVIADO_ORGANISMO_DESTINO,
      t_observaciones = \<lparr>valor = cp ''[01/02/2025 09:00 - JPEREZ] Traslado de prueba''\<rparr>,
      t_funcionario_actual = Some (cp ''JPEREZ''), t_fecha_ultima_actualizacion = Some 19990,
      t_domain_events = []\<rparr>"

definition radicacion_ej :: radicacion where
  "radicacion_ej =
     \<lparr>r_placa = cp ''RAD123'', organismo_origen = ubicacion_ej, r_fecha_tramite = 19990,
      r_fecha_vencimiento = 20050, funcionario_recibe = cp ''RECEPTOR'',
      r_estado = PENDIENTE_RADICAR, r_observaciones = \<lparr>valor = []\<rparr>,
      r_funcionario_actual = Some (cp ''RECEPTOR''),
      r_fecha_ultima_actualizacion = Some 19990, r_domain_events = [],
      fue_recibida_flag = False\<rparr>"

definition novedad_ej :: novedad where
  "novedad_ej =
     \<lparr>identificador = cp ''NOV-20250201-00001'', n_placa = cp ''NOV123'',
      tipo_novedad = cp ''documento_faltante'', descripcion = cp ''Falta el certificado'',
      prioridad = MEDIA, funcionario_reporta = cp ''R0'', fecha_reporte = 19990,
      tipo_proceso = cp ''traslado'', n_estado = RESUELTA,
      n_observaciones = \<lparr>valor = cp ''[01/02/2025 09:00 - R1] NOVEDAD RESUELTA: fix''\<rparr>,
      funcionario_resuelve = Some (cp ''R1''), fecha_resolucion = Some 19995,
      descripcion_resolucion = Some (cp ''fix''), n_funcionario_actual = Some (cp ''R1''),
      n_fecha_ultima_actualizacion = Some 19995, n_domain_events = []\<rparr>"


section \<open>Facts about texts\<close>

lemma strip_Nil_iff: "strip s = [] \<longleftrightarrow> (\<forall>c\<in>set s. es_espacio c)"
proof -
  have "strip s = [] \<longleftrightarrow> (\<forall>c\<in>set (dropWhile es_espacio s). es_espacio c)"
    by (simp add: strip_def dropWhile_eq_Nil_conv)
  also have "\<dots> \<longleftrightarrow> (\<forall>c\<in>set s. es_espacio c)"
  proof
    assume a: "\<forall>c\<in>set (dropWhile es_espacio s). es_espacio c"
    have "dropWhile es_espacio s = []"
    proof (cases "dropWhile es_espacio s")
      case Nil then show ?thesis .
    next
      case (Cons x xs)
      then have "\<not> es_espacio x" using hd_dropWhile[of es_espacio s] by simp
      moreover have "es_espacio x" using a Cons by simp
      ultimately show ?thesis by simp
    qed
    then show "\<forall>c\<in>set s. es_espacio c" by (simp add: dropWhile_eq_Nil_conv)
  next
    assume "\<forall>c\<in>set s. es_espacio c"
    then show "\<forall>c\<in>set (dropWhile es_espacio s). es_espacio c"
      by (meson set_dropWhileD)
  qed
  finally show ?thesis .
qed

lemma upper_cp_espacio: "es_espacio c \<Longrightarrow> upper_cp c = [c]"
  by (auto simp: es_espacio_def upper_cp_def)

lemma upper_cp_no_espacio:
  "\<not> es_espacio c \<Longrightarrow> upper_cp c \<noteq> [] \<and> (\<forall>d\<in>set (upper_cp c). \<not> es_espacio d)"
  by (auto simp: es_espacio_def upper_cp_def)

lemma upper_todo_espacio:
  "(\<forall>c\<in>set (upper s). es_espacio c) \<longleftrightarrow> (\<forall>c\<in>set s. es_espacio c)"
proof
  assume a: "\<forall>c\<in>set (upper s). es_espacio c"
  show "\<forall>c\<in>set s. es_espacio c"
  proof
    fix c assume c: "c \<in> set s"
    show "es_espacio c"
    proof (rule ccontr)
      assume n: "\<not> es_espacio c"
      then obtain d where "d \<in> set (upper_cp c)" "\<not> es_espacio d"
        using upper_cp_no_espacio[of c] by (cases "upper_cp c") auto
      then show False using a c by (auto simp: upper_def)
    qed
  qed
next
  assume a: "\<forall>c\<in>set s. es_espacio c"
  show "\<forall>c\<in>set (upper s). es_espacio c"
    using a upper_cp_espacio by (auto simp: upper_def)
qed

lemma strip_upper_Nil_iff: "strip (upper s) = [] \<longleftrightarrow> strip s = []"
  by (simp add: strip_Nil_iff upper_todo_espacio)

lemma strip_strip_Nil_iff: "strip (strip s) = [] \<longleftrightarrow> strip s = []"
proof
  assume "strip (strip s) = []"
  then have a: "\<forall>c\<in>set (strip s). es_espacio c" by (simp add: strip_Nil_iff)
  show "strip s = []"
  proof (rule ccontr)
    assume n: "strip s \<noteq> []"
    then have "dropWhile es_espacio (rev (dropWhile es_espacio s)) \<noteq> []"
      by (simp add: strip_def)
    then have "\<not> es_espacio (hd (dropWhile es_espacio (rev (dropWhile es_espacio s))))"
      using hd_dropWhile by blast
    moreover have "hd (dropWhile es_espacio (rev (dropWhile es_espacio s))) \<in> set (strip s)"
      using n by (simp add: strip_def)
    ultimately show False using a by blast
  qed
next
  assume e: "strip s = []"
  show "strip (strip s) = []" by (subst e) (simp add: strip_def)
qed

lemma upper_Nil_iff: "upper s = [] \<longleftrightarrow> s = []"
  by (cases s) (auto simp: upper_def upper_cp_def)

lemma strip_no_Nil: "strip s \<noteq> [] \<Longrightarrow> s \<noteq> []"
  by (auto simp: strip_def)

lemma upper_strip_no_Nil: "strip s \<noteq> [] \<Longrightarrow> upper (strip s) \<noteq> []"
  by (simp add: upper_Nil_iff)

section \<open>Facts about the audit records\<close>

lemma HistorialAsignacion_ok:
  assumes "strip fid \<noteq> []" "strip mot \<noteq> []" "length (strip mot) \<le> 500"
    "fecha \<le> hoy r"
    "case obs of None \<Rightarrow> True | Some ob \<Rightarrow> length (strip ob) \<le> 1000"
  shows "\<exists>a. HistorialAsignacion r fid fecha mot asigna (Some t) obs = Inr a \<and>
             tipo_asignacion a = t \<and> funcionario_id a = upper (strip fid)"
  using assms strip_no_Nil[of fid] strip_no_Nil[of mot] upper_strip_no_Nil[of fid]
  by (auto simp: HistorialAsignacion_def Let_def split: option.splits)

lemma cambio_proceso_inicio_traslado:
  assumes "strip fid \<noteq> []"
  shows "\<exists>a. crear_cambio_proceso r fid (cp ''traslado'') (cp ''inicio'') None = Inr a \<and>
             tipo_asignacion a = INICIO_PROCESO"
proof -
  let ?m = "cp ''inicio'' @ cp ''_'' @ cp ''traslado''"
  have m: "strip ?m = cp ''inicio_traslado''" by code_simp
  have 1: "strip ?m \<noteq> []" unfolding m by (simp add: cp_def)
  have 2: "length (strip ?m) \<le> 500" unfolding m by (simp add: cp_def)
  have "\<exists>a. HistorialAsignacion r fid (hoy r) ?m None (Some INICIO_PROCESO) None = Inr a \<and>
          tipo_asignacion a = INICIO_PROCESO \<and> funcionario_id a = upper (strip fid)"
    by (rule HistorialAsignacion_ok) (use assms 1 2 in simp_all)
  moreover have "cp ''inicio'' \<noteq> cp ''completar''" "cp ''inicio'' \<noteq> cp ''devolver''"
    by (simp_all add: cp_def)
  ultimately show ?thesis by (auto simp: crear_cambio_proceso_def Let_def)
qed

lemma cambio_proceso_completar_traslado:
  assumes "strip fid \<noteq> []"
  shows "\<exists>a. crear_cambio_proceso r fid (cp ''traslado'') (cp ''completar'') None = Inr a \<and>
             tipo_asignacion a = COMPLETAR_PROCESO"
proof -
  let ?m = "cp ''completar'' @ cp ''_'' @ cp ''traslado''"
  have m: "strip ?m = cp ''completar_traslado''" by code_simp
  have 1: "strip ?m \<noteq> []" unfolding m by (simp add: cp_def)
  have 2: "length (strip ?m) \<le> 500" unfolding m by (simp add: cp_def)
  have "\<exists>a. HistorialAsignacion r fid (hoy r) ?m None (Some COMPLETAR_PROCESO) None = Inr a \<and>
          tipo_asignacion a = COMPLETAR_PROCESO \<and> funcionario_id a = upper (strip fid)"
    by (rule HistorialAsignacion_ok) (use assms 1 2 in simp_all)
  moreover have "cp ''completar'' \<noteq> cp ''inicio''" "cp ''completar'' \<noteq> cp ''devolver''"
    by (simp_all add: cp_def)
  ultimately show ?thesis by (auto simp: crear_cambio_proceso_def Let_def)
qed


section \<open>The account\<close>

lemma validar_coherencia_estado_None:
  "validar_coherencia_estado c = None \<longleftrightarrow> coherente c"
  by (cases "estado c")
     (auto simp: validar_coherencia_estado_def coherente_def coherentes_def)

lemma Cuenta_coherente: "Cuenta r p n ts fc creador est h = Inr c \<Longrightarrow> coherente c"
  by (auto simp: Cuenta_def Let_def validar_coherencia_estado_None coherente_def
           split: if_splits sum.splits option.splits)

lemma crear_nueva_cuenta_coherente:
  "crear_nueva_cuenta r p ts creador k = Inr c \<Longrightarrow> coherente c"
  by (auto simp: crear_nueva_cuenta_def dest: Cuenta_coherente split: sum.splits)

lemma crear_desde_repositorio_coherente:
  "crear_desde_repositorio p n ts est fc creador h ant ta ra = Inr c \<Longrightarrow> coherente c"
  by (auto simp: crear_desde_repositorio_def Let_def validar_coherencia_estado_None
           split: if_splits option.splits)

lemma coherente_registrar [simp]: "coherente (registrar a ev c) = coherente c"
  by (simp add: registrar_def coherente_def)

lemma iniciar_proceso_traslado_coherente:
  "coherente c \<Longrightarrow> iniciar_proceso_traslado r f c = (res, c') \<Longrightarrow> coherente c'"
  by (auto simp: iniciar_proceso_traslado_def puede_iniciar_traslado_def
                 tiene_proceso_activo_def esta_inactiva_def Let_def
                 coherente_def coherentes_def registrar_def
           split: if_splits sum.splits)

lemma iniciar_proceso_radicacion_coherente:
  "coherente c \<Longrightarrow> iniciar_proceso_radicacion r f c = (res, c') \<Longrightarrow> coherente c'"
  by (auto simp: iniciar_proceso_radicacion_def puede_iniciar_radicacion_def
                 tiene_proceso_activo_def esta_inactiva_def Let_def
                 coherente_def coherentes_def registrar_def
           split: if_splits sum.splits)

lemma completar_proceso_traslado_coherente:
  "coherente c \<Longrightarrow> completar_proceso_traslado r f c = (res, c') \<Longrightarrow> coherente c'"
  by (auto simp: completar_proceso_traslado_def tiene_traslado_activo_def Let_def
                 coherente_def coherentes_def registrar_def
           split: if_splits sum.splits)

lemma completar_proceso_radicacion_coherente:
  "coherente c \<Longrightarrow> completar_proceso_radicacion r f c = (res, c') \<Longrightarrow> coherente c'"
  by (auto simp: completar_proceso_radicacion_def tiene_radicacion_activa_def Let_def
                 coherente_def coherentes_def registrar_def
           split: if_splits sum.splits)

lemma devolver_proceso_traslado_coherente:
  "coherente c \<Longrightarrow> devolver_proceso_traslado r f m c = (res, c') \<Longrightarrow> coherente c'"
  by (auto simp: devolver_proceso_traslado_def tiene_traslado_activo_def Let_def
                 coherente_def coherentes_def registrar_def
           split: if_splits sum.splits)

lemma devolver_proceso_radicacion_coherente:
  "coherente c \<Longrightarrow> devolver_proceso_radicacion r f m c = (res, c') \<Longrightarrow> coherente c'"
  by (auto simp: devolver_proceso_radicacion_def tiene_radicacion_activa_def Let_def
                 coherente_def coherentes_def registrar_def
           split: if_splits sum.splits)

lemma inactivar_cuenta_coherente:
  "coherente c \<Longrightarrow> inactivar_cuenta r f m c = (res, c') \<Longrightarrow> coherente c'"
  by (auto simp: inactivar_cuenta_def tiene_proceso_activo_def Let_def
                 coherente_def coherentes_def registrar_def
           split: if_splits sum.splits)

lemma reactivar_cuenta_coherente:
  "coherente c \<Longrightarrow> reactivar_cuenta r f c = (res, c') \<Longrightarrow> coherente c'"
  by (auto simp: reactivar_cuenta_def Let_def
                 coherente_def coherentes_def registrar_def
           split: if_splits sum.splits)

lemma reasignar_funcionario_coherente:
  "coherente c \<Longrightarrow> reasignar_funcionario r nu au m ob c = (res, c') \<Longrightarrow> coherente c'"
  by (auto simp: reasignar_funcionario_def Let_def split: if_splits sum.splits)

lemma ejecutar_coherente:
  "coherente c \<Longrightarrow> ejecutar r cmd c = (res, c') \<Longrightarrow> coherente c'"
  by (cases cmd)
     (auto dest: iniciar_proceso_traslado_coherente iniciar_proceso_radicacion_coherente
        completar_proceso_traslado_coherente completar_proceso_radicacion_coherente
        devolver_proceso_traslado_coherente devolver_proceso_radicacion_coherente
        inactivar_cuenta_coherente reactivar_cuenta_coherente reasignar_funcionario_coherente)

lemma get_domain_events_coherente: "coherente (snd (get_domain_events c)) = coherente c"
  by (simp add: get_domain_events_def coherente_def)

text \<open>
  C1. Every account obtained from \<open>crear_nueva_cuenta\<close> or \<open>crear_desde_repositorio\<close>
  and then taken through any sequence of commands (whether each returns or raises) and
  drains satisfies: the two activo flags are never both set; \<open>estado\<close> is EN_TRASLADO
  exactly when the traslado flag is set, EN_RADICACION exactly when the radicacion flag
  is set, and ACTIVA or INACTIVA exactly when neither flag is set.
\<close>

theorem C1_coherencia_siempre:
  assumes "alcanzable c"
  shows "\<not> (proceso_traslado_activo c \<and> proceso_radicacion_activo c) \<and>
         (estado c = EN_TRASLADO \<longleftrightarrow> proceso_traslado_activo c) \<and>
         (estado c = EN_RADICACION \<longleftrightarrow> proceso_radicacion_activo c) \<and>
         (estado c \<in> {ACTIVA, INACTIVA} \<longleftrightarrow>
            \<not> proceso_traslado_activo c \<and> \<not> proceso_radicacion_activo c)"
proof -
  have "coherente c"
    using assms
  proof (induction rule: alcanzable.induct)
    case (nueva r p ts creador k c)
    then show ?case by (rule crear_nueva_cuenta_coherente)
  next
    case (repositorio p n ts est fc creador h ant ta ra c)
    then show ?case by (rule crear_desde_repositorio_coherente)
  next
    case (comando c r cmd res c')
    then show ?case by (blast intro: ejecutar_coherente)
  next
    case (drenado c)
    then show ?case by (simp add: get_domain_events_coherente)
  qed
  then show ?thesis by (simp add: coherente_def coherentes_def)
qed

theorem C1_coherencia_siempre_witness:
  "alcanzable cuenta_en_traslado_ej \<and>
   estado cuenta_en_traslado_ej = EN_TRASLADO \<and>
   proceso_traslado_activo cuenta_en_traslado_ej \<and>
   \<not> proceso_radicacion_activo cuenta_en_traslado_ej"
proof -
  have 1: "crear_nueva_cuenta reloj_ej (cp ''ABC123'') (cp ''particular'') (cp ''  func001 '')
             None = Inr cuenta_nueva_ej"
    by code_simp
  have 2: "ejecutar reloj_ej (IniciarProcesoTraslado (cp ''FUNC001'')) cuenta_nueva_ej =
             (Exito, cuenta_en_traslado_ej)"
    by code_simp
  have a: "alcanzable cuenta_en_traslado_ej"
    using alcanzable.comando[OF alcanzable.nueva[OF 1] 2] .
  have "estado cuenta_en_traslado_ej = EN_TRASLADO"
    by (simp add: cuenta_en_traslado_ej_def)
  with C1_coherencia_siempre[OF a] a show ?thesis by simp
qed


text \<open>
  C4. For every \<open>TipoProcesoAnterior\<close> t: both \<open>permite_traslado\<close> and
  \<open>permite_radicacion\<close> hold exactly for NINGUNO, TRASLADO_DEVUELTO and
  RADICACION_DEVUELTA; exactly one of them holds exactly for TRASLADO_COMPLETADO (only
  radicacion) and RADICACION_COMPLETADA (only traslado).
\<close>

theorem C4_matriz_origen_destino:
  "(permite_traslado t \<and> permite_radicacion t) =
     (t = NINGUNO \<or> t = TRASLADO_DEVUELTO \<or> t = RADICACION_DEVUELTA) \<and>
   (permite_traslado t \<noteq> permite_radicacion t) =
     (t = TRASLADO_COMPLETADO \<or> t = RADICACION_COMPLETADA) \<and>
   permite_traslado TRASLADO_COMPLETADO = False \<and>
   permite_radicacion TRASLADO_COMPLETADO = True \<and>
   permite_traslado RADICACION_COMPLETADA = True \<and>
   permite_radicacion RADICACION_COMPLETADA = False"
  by (cases t) (simp_all add: permite_traslado_def permite_radicacion_def)

lemma crear_nueva_cuenta_forma:
  assumes "crear_nueva_cuenta r p ts creador k = Inr c"
  shows "estado c = ACTIVA \<and> tipo_proceso_anterior c = NINGUNO \<and>
         \<not> proceso_traslado_activo c \<and> \<not> proceso_radicacion_activo c \<and>
         (\<exists>h. historial_asignaciones c = [h] \<and> tipo_asignacion h = CREACION)"
  using assms
  by (auto simp: crear_nueva_cuenta_def Cuenta_def Let_def crear_asignacion_inicial_def
                 HistorialAsignacion_def
           split: if_splits sum.splits option.splits)

text \<open>
  C5. For every account freshly created by \<open>crear_nueva_cuenta\<close> (it is ACTIVA and its
  history is one CREACION entry) and every funcionario f that is not blank:
  \<open>iniciar_proceso_traslado(f)\<close> and then \<open>completar_proceso_traslado(f)\<close> both return,
  and leave \<open>estado\<close> ACTIVA, \<open>tipo_proceso_anterior\<close> TRASLADO_COMPLETADO,
  \<open>puede_iniciar_traslado()\<close> false, \<open>puede_iniciar_radicacion()\<close> true and a history
  of length 3.
\<close>

theorem C5_escenario_traslado_completo:
  assumes "crear_nueva_cuenta r0 p ts creador k = Inr c0" and "strip f \<noteq> []"
  shows "estado c0 = ACTIVA \<and>
         (\<exists>h. historial_asignaciones c0 = [h] \<and> tipo_asignacion h = CREACION) \<and>
         (\<exists>c1 c2. iniciar_proceso_traslado r1 f c0 = (Exito, c1) \<and>
                  completar_proceso_traslado r2 f c1 = (Exito, c2) \<and>
                  estado c2 = ACTIVA \<and>
                  tipo_proceso_anterior c2 = TRASLADO_COMPLETADO \<and>
                  puede_iniciar_traslado c2 = False \<and>
                  puede_iniciar_radicacion c2 = True \<and>
                  length (historial_asignaciones c2) = 3)"
proof -
  from crear_nueva_cuenta_forma[OF assms(1)] obtain h where
    c0: "estado c0 = ACTIVA" "tipo_proceso_anterior c0 = NINGUNO"
        "\<not> proceso_traslado_activo c0" "\<not> proceso_radicacion_activo c0"
        "historial_asignaciones c0 = [h]" "tipo_asignacion h = CREACION"
    by blast
  obtain a1 where a1: "crear_cambio_proceso r1 f (cp ''traslado'') (cp ''inicio'') None = Inr a1"
    using cambio_proceso_inicio_traslado[OF assms(2)] by blast
  obtain a2 where
    a2: "crear_cambio_proceso r2 f (cp ''traslado'') (cp ''completar'') None = Inr a2"
    using cambio_proceso_completar_traslado[OF assms(2)] by blast
  have p: "puede_iniciar_traslado c0"
    using c0 by (simp add: puede_iniciar_traslado_def tiene_proceso_activo_def
                           esta_inactiva_def permite_traslado_def)
  define c1 where "c1 = snd (iniciar_proceso_traslado r1 f c0)"
  have i: "iniciar_proceso_traslado r1 f c0 = (Exito, c1)"
    using p a1 by (simp add: c1_def iniciar_proceso_traslado_def Let_def)
  have c1: "proceso_traslado_activo c1" "historial_asignaciones c1 = [h, a1]"
           "\<not> proceso_radicacion_activo c1"
    using p a1 c0 by (simp_all add: c1_def iniciar_proceso_traslado_def Let_def registrar_def)
  define c2 where "c2 = snd (completar_proceso_traslado r2 f c1)"
  have j: "completar_proceso_traslado r2 f c1 = (Exito, c2)"
    using c1 a2 by (simp add: c2_def completar_proceso_traslado_def Let_def
                              tiene_traslado_activo_def)
  have c2: "estado c2 = ACTIVA" "tipo_proceso_anterior c2 = TRASLADO_COMPLETADO"
           "historial_asignaciones c2 = [h, a1, a2]" "\<not> proceso_traslado_activo c2"
           "\<not> proceso_radicacion_activo c2"
    using c1 a2 by (simp_all add: c2_def completar_proceso_traslado_def Let_def
                                  tiene_traslado_activo_def registrar_def)
  have "puede_iniciar_traslado c2 = False" "puede_iniciar_radicacion c2 = True"
    using c2 by (simp_all add: puede_iniciar_traslado_def puede_iniciar_radicacion_def
                               tiene_proceso_activo_def esta_inactiva_def
                               permite_traslado_def permite_radicacion_def)
  with c0 c2 i j show ?thesis by auto
qed

lemma cuenta_nueva_ej_creada:
  "crear_nueva_cuenta reloj_ej (cp ''ABC123'') (cp ''particular'') (cp ''  func001 '') None =
     Inr cuenta_nueva_ej"
  by code_simp

theorem C5_escenario_traslado_completo_witness:
  "crear_nueva_cuenta reloj_ej (cp ''ABC123'') (cp ''particular'') (cp ''  func001 '') None =
     Inr cuenta_nueva_ej \<and>
   strip (cp ''F1'') \<noteq> [] \<and>
   (\<exists>c1 c2.
      iniciar_proceso_traslado reloj_ej (cp ''F1'') cuenta_nueva_ej = (Exito, c1) \<and>
      completar_proceso_traslado reloj_ej (cp ''F1'') c1 = (Exito, c2) \<and>
      tipo_proceso_anterior c2 = TRASLADO_COMPLETADO \<and>
      length (historial_asignaciones c2) = 3)"
proof -
  have 1: "strip (cp ''F1'') \<noteq> []" by code_simp
  from C5_escenario_traslado_completo[OF cuenta_nueva_ej_creada 1, of reloj_ej reloj_ej]
    cuenta_nueva_ej_creada 1
  show ?thesis by auto
qed


text \<open>
  C8. For every \<open>historial\<close>, \<open>estado\<close>, pair of activo flags and
  \<open>tipo_proceso_anterior\<close> that satisfy the coherence invariants, and a creator that is
  not blank, \<open>crear_desde_repositorio\<close> returns an account whose \<open>estado\<close>, flags,
  \<open>tipo_proceso_anterior\<close> and \<open>historial_asignaciones\<close> are the inputs, with an empty
  buffer of pending events.
\<close>

theorem C8_rehidratar_ida_y_vuelta:
  assumes "\<not> (ta \<and> ra)"
    and "(est = EN_TRASLADO) = ta"
    and "(est = EN_RADICACION) = ra"
    and "(est \<in> {ACTIVA, INACTIVA}) = (\<not> ta \<and> \<not> ra)"
    and "strip creador \<noteq> []"
  shows "\<exists>c. crear_desde_repositorio p n ts est fc creador h ant ta ra = Inr c \<and>
             estado c = est \<and> proceso_traslado_activo c = ta \<and>
             proceso_radicacion_activo c = ra \<and> tipo_proceso_anterior c = ant \<and>
             historial_asignaciones c = h \<and> domain_events c = [] \<and>
             fst (get_domain_events c) = []"
proof -
  let ?c = "\<lparr>placa = p, numero_cuenta = n, tipo_servicio = ts, fecha_creacion = fc,
             funcionario_creador = upper (strip creador), estado = est,
             historial_asignaciones = h, domain_events = [],
             tipo_proceso_anterior = ant, proceso_traslado_activo = ta,
             proceso_radicacion_activo = ra\<rparr>"
  have 1: "upper (strip creador) \<noteq> []"
    using assms(5) by (rule upper_strip_no_Nil)
  have 2: "strip (upper (strip creador)) \<noteq> []"
    using assms(5) by (simp add: strip_upper_Nil_iff strip_strip_Nil_iff)
  have "coherente ?c"
    using assms(1-4) by (simp add: coherente_def coherentes_def)
  then have 3: "validar_coherencia_estado ?c = None"
    by (simp only: validar_coherencia_estado_None)
  have "crear_desde_repositorio p n ts est fc creador h ant ta ra = Inr ?c"
    using 1 2 3 by (simp add: crear_desde_repositorio_def Let_def)
  then show ?thesis by (simp add: get_domain_events_def)
qed

theorem C8_rehidratar_ida_y_vuelta_witness:
  "\<exists>c. crear_desde_repositorio (cp ''ABC123'') \<lparr>nc_fecha = 20000, nc_consecutivo = 1\<rparr>
          (cp ''particular'') EN_TRASLADO 20000 (cp ''func001'')
          (historial_asignaciones cuenta_en_traslado_ej) NINGUNO True False = Inr c \<and>
        estado c = EN_TRASLADO \<and> proceso_traslado_activo c = True \<and>
        historial_asignaciones c = historial_asignaciones cuenta_en_traslado_ej \<and>
        domain_events c = []"
proof -
  have 5: "strip (cp ''func001'') \<noteq> []" by code_simp
  have "\<exists>c. crear_desde_repositorio (cp ''ABC123'') \<lparr>nc_fecha = 20000, nc_consecutivo = 1\<rparr>
          (cp ''particular'') EN_TRASLADO 20000 (cp ''func001'')
          (historial_asignaciones cuenta_en_traslado_ej) NINGUNO True False = Inr c \<and>
             estado c = EN_TRASLADO \<and> proceso_traslado_activo c = True \<and>
             proceso_radicacion_activo c = False \<and> tipo_proceso_anterior c = NINGUNO \<and>
             historial_asignaciones c = historial_asignaciones cuenta_en_traslado_ej \<and>
             domain_events c = [] \<and> fst (get_domain_events c) = []"
    by (rule C8_rehidratar_ida_y_vuelta) (use 5 in simp_all)
  then show ?thesis by blast
qed

lemma cuenta_en_traslado_ej_iniciada:
  "iniciar_proceso_traslado reloj_ej (cp ''FUNC001'') cuenta_nueva_ej =
     (Exito, cuenta_en_traslado_ej)"
  by code_simp

text \<open>
  C2, at the input of the repository's own test: a fresh account with a traslado in
  progress, and \<open>devolver_proceso_traslado("FUNC002", "A" * 600)\<close>. The call raises
  because the audit record's motivo exceeds 500 characters, and by then the traslado
  flag, \<open>tipo_proceso_anterior\<close> and \<open>estado\<close> have been changed.
\<close>

theorem C2_devolver_motivo_largo:
  "crear_nueva_cuenta reloj_ej (cp ''ABC123'') (cp ''particular'') (cp ''  func001 '') None =
     Inr cuenta_nueva_ej \<and>
   iniciar_proceso_traslado reloj_ej (cp ''FUNC001'') cuenta_nueva_ej =
     (Exito, cuenta_en_traslado_ej) \<and>
   devolver_proceso_traslado reloj_ej (cp ''FUNC002'') (replicate 600 65)
       cuenta_en_traslado_ej =
     (Falla MotivoExcede500,
      cuenta_en_traslado_ej\<lparr>proceso_traslado_activo := False,
                            tipo_proceso_anterior := TRASLADO_DEVUELTO,
                            estado := ACTIVA\<rparr>) \<and>
   estado cuenta_en_traslado_ej = EN_TRASLADO \<and>
   proceso_traslado_activo cuenta_en_traslado_ej = True \<and>
   tipo_proceso_anterior cuenta_en_traslado_ej = NINGUNO"
proof -
  have "devolver_proceso_traslado reloj_ej (cp ''FUNC002'') (replicate 600 65)
          cuenta_en_traslado_ej =
        (Falla MotivoExcede500,
         cuenta_en_traslado_ej\<lparr>proceso_traslado_activo := False,
                               tipo_proceso_anterior := TRASLADO_DEVUELTO,
                               estado := ACTIVA\<rparr>)"
    by code_simp
  moreover have "estado cuenta_en_traslado_ej = EN_TRASLADO"
    "proceso_traslado_activo cuenta_en_traslado_ej = True"
    "tipo_proceso_anterior cuenta_en_traslado_ej = NINGUNO"
    by (simp_all add: cuenta_en_traslado_ej_def cuenta_nueva_ej_def)
  ultimately show ?thesis
    using cuenta_nueva_ej_creada cuenta_en_traslado_ej_iniciada by simp
qed

text \<open>What a raising command does keep: the history and the buffer of events.\<close>

lemma ejecutar_falla_conserva:
  assumes "ejecutar r cmd c = (Falla e, c')"
  shows "historial_asignaciones c' = historial_asignaciones c \<and>
         domain_events c' = domain_events c"
  using assms
  by (cases cmd)
     (auto simp: iniciar_proceso_traslado_def iniciar_proceso_radicacion_def
                 completar_proceso_traslado_def completar_proceso_radicacion_def
                 devolver_proceso_traslado_def devolver_proceso_radicacion_def
                 inactivar_cuenta_def reactivar_cuenta_def reasignar_funcionario_def
                 Let_def
           split: if_splits sum.splits)

lemma ejecutar_exito_registra:
  assumes "ejecutar r cmd c = (Exito, c')"
  shows "\<exists>a ev. historial_asignaciones c' = historial_asignaciones c @ [a] \<and>
                domain_events c' = domain_events c @ [ev]"
  using assms
  by (cases cmd)
     (auto simp: iniciar_proceso_traslado_def iniciar_proceso_radicacion_def
                 completar_proceso_traslado_def completar_proceso_radicacion_def
                 devolver_proceso_traslado_def devolver_proceso_radicacion_def
                 inactivar_cuenta_def reactivar_cuenta_def reasignar_funcionario_def
                 Let_def registrar_def
           split: if_splits sum.splits)


section \<open>Draining the events\<close>

lemma ejecutar_agrega_eventos:
  "\<exists>es. domain_events (snd (ejecutar r cmd c)) = domain_events c @ es \<and>
        length es = (if fst (ejecutar r cmd c) = Exito then 1 else 0)"
proof (cases "ejecutar r cmd c")
  case (Pair res c')
  show ?thesis
  proof (cases res)
    case Exito
    with Pair ejecutar_exito_registra[of r cmd c c'] show ?thesis by auto
  next
    case (Falla e)
    with Pair ejecutar_falla_conserva[of r cmd c e c'] show ?thesis by auto
  qed
qed

lemma ejecutar_todos_eventos:
  "domain_events (ejecutar_todos pasos c) = domain_events c @ emitidos pasos c"
proof (induction pasos arbitrary: c)
  case Nil
  then show ?case by simp
next
  case (Cons paso pasos)
  obtain r cmd where paso: "paso = (r, cmd)" by (cases paso)
  obtain es where es: "domain_events (snd (ejecutar r cmd c)) = domain_events c @ es"
    using ejecutar_agrega_eventos[of r cmd c] by blast
  show ?case
    using Cons.IH[of "snd (ejecutar r cmd c)"] es by (simp add: paso)
qed

lemma ejecutar_traslado_eventos:
  "t_domain_events (snd (ejecutar_traslado r cmd t)) = t_domain_events t"
  by (cases cmd)
     (auto simp: marcar_como_revisado_def completar_traslado_def t_reportar_novedad_def
                 t_resolver_novedad_def devolver_traslado_def t_actualizar_observaciones_def
                 Let_def
           split: sum.splits option.splits)

lemma ejecutar_radicacion_eventos:
  "r_domain_events (snd (ejecutar_radicacion r cmd x)) = r_domain_events x"
  by (cases cmd)
     (auto simp: marcar_como_recibida_def marcar_como_revisada_def completar_radicacion_def
                 r_reportar_novedad_def r_resolver_novedad_def devolver_radicacion_def
                 r_actualizar_observaciones_def Let_def
           split: sum.splits option.splits)

lemma ejecutar_novedad_eventos:
  "n_domain_events (snd (ejecutar_novedad r cmd n)) = n_domain_events n"
  by (cases cmd)
     (auto simp: tomar_en_revision_def resolver_novedad_def reabrir_novedad_def
                 cambiar_prioridad_def n_actualizar_observaciones_def Let_def
           split: sum.splits option.splits)

text \<open>
  C9. For each entity, \<open>get_domain_events\<close> returns the buffer and leaves it empty, so
  that an immediate second call returns the empty list, and changes no other field. For
  a \<open>Cuenta\<close>, after a drain and any sequence of commands the next drain returns exactly
  what the commands added, in the order they added it: each command appends at the end
  of the buffer, one event when it returns and none when it raises. No command of
  \<open>Traslado\<close>, \<open>Radicacion\<close> or \<open>Novedad\<close> touches the buffer.
\<close>

theorem C9_drenado_de_eventos:
  "get_domain_events c = (domain_events c, c\<lparr>domain_events := []\<rparr>) \<and>
   fst (get_domain_events (snd (get_domain_events c))) = [] \<and>
   fst (get_domain_events (ejecutar_todos pasos (snd (get_domain_events c)))) =
     emitidos pasos (snd (get_domain_events c)) \<and>
   (\<exists>es. domain_events (snd (ejecutar r cmd c)) = domain_events c @ es \<and>
         length es = (if fst (ejecutar r cmd c) = Exito then 1 else 0)) \<and>
   t_get_domain_events t = (t_domain_events t, t\<lparr>t_domain_events := []\<rparr>) \<and>
   fst (t_get_domain_events (snd (t_get_domain_events t))) = [] \<and>
   t_domain_events (snd (ejecutar_traslado r tcmd t)) = t_domain_events t \<and>
   r_get_domain_events x = (r_domain_events x, x\<lparr>r_domain_events := []\<rparr>) \<and>
   fst (r_get_domain_events (snd (r_get_domain_events x))) = [] \<and>
   r_domain_events (snd (ejecutar_radicacion r rcmd x)) = r_domain_events x \<and>
   n_get_domain_events n = (n_domain_events n, n\<lparr>n_domain_events := []\<rparr>) \<and>
   fst (n_get_domain_events (snd (n_get_domain_events n))) = [] \<and>
   n_domain_events (snd (ejecutar_novedad r ncmd n)) = n_domain_events n"
proof -
  have "fst (get_domain_events (ejecutar_todos pasos (snd (get_domain_events c)))) =
          emitidos pasos (snd (get_domain_events c))"
    using ejecutar_todos_eventos[of pasos "snd (get_domain_events c)"]
    by (simp add: get_domain_events_def)
  then show ?thesis
    using ejecutar_agrega_eventos[of r cmd c]
    by (simp add: get_domain_events_def t_get_domain_events_def r_get_domain_events_def
                  n_get_domain_events_def ejecutar_traslado_eventos
                  ejecutar_radicacion_eventos ejecutar_novedad_eventos)
qed

section \<open>A resolved incident\<close>

text \<open>
  C7. For a \<open>Novedad\<close> whose \<open>estado\<close> is RESUELTA: the transition table lets it go to
  REABIERTA only; every command other than \<open>reabrir_novedad\<close> raises and leaves the
  incident as it is, so only \<open>reabrir_novedad\<close> changes \<open>estado\<close>; and when
  \<open>reabrir_novedad\<close> returns, \<open>estado\<close> is REABIERTA and \<open>funcionario_resuelve\<close>,
  \<open>fecha_resolucion\<close> and \<open>descripcion_resolucion\<close> are all \<open>None\<close>.
\<close>

theorem C7_resuelta_solo_se_reabre:
  assumes "n_estado n = RESUELTA"
  shows "n_get_transiciones_permitidas (n_estado n) = [REABIERTA] \<and>
         ((\<exists>f m. cmd = ReabrirNovedad f m) \<or>
            (\<exists>e. ejecutar_novedad r cmd n = (Falla e, n))) \<and>
         (reabrir_novedad r f m n = (Exito, n') \<longrightarrow>
            n_estado n' = REABIERTA \<and> funcionario_resuelve n' = None \<and>
            fecha_resolucion n' = None \<and> descripcion_resolucion n' = None)"
proof -
  have 1: "n_get_transiciones_permitidas (n_estado n) = [REABIERTA]"
    using assms by (simp add: n_get_transiciones_permitidas_def)
  have 2: "(\<exists>f m. cmd = ReabrirNovedad f m) \<or> (\<exists>e. ejecutar_novedad r cmd n = (Falla e, n))"
    using assms
    by (cases cmd)
       (simp_all add: tomar_en_revision_def resolver_novedad_def cambiar_prioridad_def
                      n_actualizar_observaciones_def n_puede_pasar_a_revision_def
                      puede_ser_resuelta_def puede_cambiar_prioridad_def esta_resuelta_def
                      n_puede_transicionar_a_def n_get_transiciones_permitidas_def)
  have 3: "reabrir_novedad r f m n = (Exito, n') \<longrightarrow>
            n_estado n' = REABIERTA \<and> funcionario_resuelve n' = None \<and>
            fecha_resolucion n' = None \<and> descripcion_resolucion n' = None"
    by (auto simp: reabrir_novedad_def Let_def split: if_splits sum.splits)
  from 1 2 3 show ?thesis by blast
qed

lemma novedad_ej_reabierta:
  "reabrir_novedad reloj_ej (cp ''R2'') (cp ''regression'') novedad_ej =
     (Exito,
      novedad_ej\<lparr>n_estado := REABIERTA, n_funcionario_actual := Some (cp ''R2''),
                 n_fecha_ultima_actualizacion := Some 20000,
                 funcionario_resuelve := None, fecha_resolucion := None,
                 descripcion_resolucion := None,
                 n_observaciones :=
                   \<lparr>valor = cp ''[01/02/2025 09:00 - R1] NOVEDAD RESUELTA: fix'' @ [10] @
                             cp ''---'' @ [10] @
                             cp ''[01/02/2025 10:30 - R2] NOVEDAD REABIERTA: regression''\<rparr>\<rparr>)"
  by code_simp

theorem C7_resuelta_solo_se_reabre_witness:
  "n_estado novedad_ej = RESUELTA \<and>
   fst (reabrir_novedad reloj_ej (cp ''R2'') (cp ''regression'') novedad_ej) = Exito \<and>
   n_estado (snd (reabrir_novedad reloj_ej (cp ''R2'') (cp ''regression'') novedad_ej)) =
     REABIERTA \<and>
   funcionario_resuelve
     (snd (reabrir_novedad reloj_ej (cp ''R2'') (cp ''regression'') novedad_ej)) = None \<and>
   fst (ejecutar_novedad reloj_ej (ResolverNovedad (cp ''R2'') (cp ''otra vez'')) novedad_ej) =
     Falla NoPuedeResolver"
proof -
  have e: "n_estado novedad_ej = RESUELTA" by (simp add: novedad_ej_def)
  obtain n' where
    n': "reabrir_novedad reloj_ej (cp ''R2'') (cp ''regression'') novedad_ej = (Exito, n')"
    using novedad_ej_reabierta by blast
  have "fst (ejecutar_novedad reloj_ej (ResolverNovedad (cp ''R2'') (cp ''otra vez''))
          novedad_ej) = Falla NoPuedeResolver"
    by code_simp
  with C7_resuelta_solo_se_reabre[OF e, of _ reloj_ej "cp ''R2''" "cp ''regression''" n'] e n'
  show ?thesis by simp
qed

section \<open>Reception status of a rehydrated radicacion\<close>

lemma ejecutar_radicacion_fue_recibida:
  "(\<exists>f. cmd = MarcarComoRecibida f) \<or>
   fue_recibida (snd (ejecutar_radicacion r cmd x)) = fue_recibida x"
  by (cases cmd)
     (auto simp: marcar_como_revisada_def completar_radicacion_def
                 r_reportar_novedad_def r_resolver_novedad_def devolver_radicacion_def
                 r_actualizar_observaciones_def Let_def fue_recibida_def
           split: sum.splits option.splits)

lemma r_crear_desde_repositorio_ok:
  assumes "strip recibe \<noteq> []" and "tramite < vencimiento"
  shows "\<exists>x. r_crear_desde_repositorio p origen tramite vencimiento recibe est obs actual
               ultima = Inr x"
proof -
  have 1: "upper (strip recibe) \<noteq> []"
    using assms(1) by (rule upper_strip_no_Nil)
  have 2: "strip (upper (strip recibe)) \<noteq> []"
    using assms(1) by (simp add: strip_upper_Nil_iff strip_strip_Nil_iff)
  show ?thesis
    using 1 2 assms(2) by (simp add: r_crear_desde_repositorio_def Let_def)
qed

text \<open>
  C10. Every \<open>Radicacion\<close> returned by \<open>crear_desde_repositorio\<close> answers
  \<open>fue_recibida()\<close> with \<open>False\<close>, and carries the \<open>estado\<close> it was given, whichever
  that is. Among the commands only \<open>marcar_como_recibida\<close> changes the answer of
  \<open>fue_recibida()\<close>.
\<close>

theorem C10_fue_recibida_no_se_rehidrata:
  assumes "r_crear_desde_repositorio p origen tramite vencimiento recibe est obs actual
             ultima = Inr x"
  shows "fue_recibida x = False \<and> r_estado x = est \<and>
         ((\<exists>f. cmd = MarcarComoRecibida f) \<or>
            fue_recibida (snd (ejecutar_radicacion r cmd y)) = fue_recibida y)"
proof -
  have "fue_recibida x = False \<and> r_estado x = est"
    using assms
    by (auto simp: r_crear_desde_repositorio_def Let_def fue_recibida_def split: if_splits)
  then show ?thesis using ejecutar_radicacion_fue_recibida[of cmd r y] by blast
qed

theorem C10_fue_recibida_no_se_rehidrata_witness:
  "\<exists>x. r_crear_desde_repositorio (cp ''RAD123'') ubicacion_ej 19990 20050 (cp ''receptor'')
          RECIBIDO \<lparr>valor = []\<rparr> (Some (cp ''RECEPTOR'')) (Some 19995) = Inr x \<and>
        r_estado x = RECIBIDO \<and> fue_recibida x = False"
proof -
  have 1: "strip (cp ''receptor'') \<noteq> []" by code_simp
  have 2: "(19990::int) < 20050" by simp
  obtain x where
    x: "r_crear_desde_repositorio (cp ''RAD123'') ubicacion_ej 19990 20050 (cp ''receptor'')
          RECIBIDO \<lparr>valor = []\<rparr> (Some (cp ''RECEPTOR'')) (Some 19995) = Inr x"
    using r_crear_desde_repositorio_ok[OF 1 2] by blast
  from C10_fue_recibida_no_se_rehidrata[OF x] x show ?thesis by blast
qed


section \<open>What normalisation keeps\<close>

lemma set_strip_keeps:
  assumes "c \<in> set s" "\<not> es_espacio c"
  shows "c \<in> set (strip s)"
proof -
  have 1: "c \<in> set (dropWhile es_espacio s)"
    using assms by (induction s) auto
  have "\<And>xs. c \<in> set xs \<Longrightarrow> c \<in> set (dropWhile es_espacio xs)"
  proof -
    fix xs show "c \<in> set xs \<Longrightarrow> c \<in> set (dropWhile es_espacio xs)"
      using assms(2) by (induction xs) auto
  qed
  then have "c \<in> set (dropWhile es_espacio (rev (dropWhile es_espacio s)))"
    using 1 by simp
  then show ?thesis by (simp add: strip_def)
qed

lemma split_lineas_not_Nil [simp]: "split_lineas s \<noteq> []"
  by (induction s) (auto split: list.splits)

lemma set_split_lineas_keeps:
  assumes "c \<in> set s" "c \<noteq> 10"
  shows "\<exists>l\<in>set (split_lineas s). c \<in> set l"
  using assms
proof (induction s)
  case Nil
  then show ?case by simp
next
  case (Cons a s)
  obtain l ls where ls: "split_lineas s = l # ls"
    by (cases "split_lineas s") auto
  show ?case
  proof (cases "a = 10")
    case True
    with Cons show ?thesis by auto
  next
    case False
    show ?thesis
    proof (cases "c = a")
      case True
      with False ls show ?thesis by simp
    next
      case n: False
      with Cons have "\<exists>l\<in>set (split_lineas s). c \<in> set l" by simp
      with False ls show ?thesis by auto
    qed
  qed
qed

lemma set_colapsar_espacios_keeps:
  "c \<in> set l \<Longrightarrow> c \<noteq> 32 \<Longrightarrow> c \<in> set (colapsar_espacios l)"
  by (induction l rule: colapsar_espacios.induct) (auto split: if_splits)

lemma set_join_con_keeps:
  "l \<in> set ls \<Longrightarrow> c \<in> set l \<Longrightarrow> c \<in> set (join_con sep ls)"
  by (induction sep ls rule: join_con.induct) auto

lemma fin_salto_le: "fin_salto w \<le> length w"
  by (simp add: fin_salto_def)

lemma set_drop_takeWhile_keeps:
  assumes "c \<in> set cs" "\<not> P c" "k \<le> length (takeWhile P cs)"
  shows "c \<in> set (drop k cs)"
proof -
  have "cs = takeWhile P cs @ dropWhile P cs" by simp
  moreover have "c \<notin> set (takeWhile P cs)"
    using assms(2) by (meson set_takeWhileD)
  ultimately have "c \<in> set (dropWhile P cs)"
    using assms(1) by (metis Un_iff set_append)
  moreover have "drop k cs = drop k (takeWhile P cs) @ dropWhile P cs"
    using assms(3) by (metis drop_append diff_is_0_eq drop0 takeWhile_dropWhile_id)
  ultimately show ?thesis by simp
qed

lemma set_colapsar_saltos_keeps:
  "c \<in> set s \<Longrightarrow> \<not> es_espacio c \<Longrightarrow> c \<in> set (colapsar_saltos s)"
proof (induction s rule: colapsar_saltos.induct)
  case 1
  then show ?case by simp
next
  case (2 a cs)
  have c10: "c \<noteq> 10" using "2.prems"(2) by (auto simp: es_espacio_def)
  show ?case
  proof (cases "a = 10 \<and> 10 \<in> set (takeWhile es_espacio cs)")
    case True
    then have "c \<in> set cs" using "2.prems"(1) c10 by auto
    then have "c \<in> set (drop (fin_salto (takeWhile es_espacio cs)) cs)"
      using "2.prems"(2) fin_salto_le by (rule set_drop_takeWhile_keeps)
    then have "c \<in> set (colapsar_saltos (drop (fin_salto (takeWhile es_espacio cs)) cs))"
      using "2.IH"(1) True "2.prems"(2) by simp
    then show ?thesis using True by simp
  next
    case False
    then show ?thesis using 2 by auto
  qed
qed

lemma normalizar_texto_keeps:
  assumes "c \<in> set t" "\<not> es_espacio c" "reemplazar_control c = c"
  shows "c \<in> set (normalizar_texto t)"
proof -
  have ne: "t \<noteq> []" "strip t \<noteq> []"
    using assms(1,2) by (auto simp: strip_Nil_iff)
  have c10: "c \<noteq> 10" and c32: "c \<noteq> 32" using assms(2) by (auto simp: es_espacio_def)
  have "c \<in> set (map reemplazar_control t)"
    using assms(1,3) by (metis image_eqI set_map)
  then obtain l where l: "l \<in> set (split_lineas (map reemplazar_control t))" "c \<in> set l"
    using set_split_lineas_keeps c10 by blast
  have "c \<in> set (strip (colapsar_espacios l))"
    using l(2) c32 assms(2) by (simp add: set_colapsar_espacios_keeps set_strip_keeps)
  then have "c \<in> set (join_con [10] (map (\<lambda>l. strip (colapsar_espacios l))
                (split_lineas (map reemplazar_control t))))"
    using l(1) by (intro set_join_con_keeps[where l = "strip (colapsar_espacios l)"]) auto
  then show ?thesis
    using ne assms(2)
    by (simp add: normalizar_texto_def set_colapsar_saltos_keeps set_strip_keeps)
qed

lemma Observacion_rechaza:
  assumes "c \<in> set t" "\<not> es_espacio c" "reemplazar_control c = c" "\<not> caracter_permitido c"
  shows "\<exists>e. Observacion t = Inl e"
proof -
  have "c \<in> set (normalizar_texto t)"
    using assms(1-3) by (rule normalizar_texto_keeps)
  then have "normalizar_texto t \<noteq> []"
    "\<not> contiene_solo_caracteres_permitidos (normalizar_texto t)"
    using assms(4) by (auto simp: contiene_solo_caracteres_permitidos_def list_all_iff)
  then show ?thesis by (simp add: Observacion_def Let_def)
qed

lemma o_mayuscula_rechazada:
  "\<not> es_espacio 211" "reemplazar_control 211 = 211" "\<not> caracter_permitido 211"
  by code_simp+

lemma o_minuscula_rechazada:
  "\<not> es_espacio 243" "reemplazar_control 243 = 243" "\<not> caracter_permitido 243"
  by code_simp+

lemma agregar_entrada_rechaza:
  assumes "c \<in> set t" "\<not> es_espacio c" "reemplazar_control c = c" "\<not> caracter_permitido c"
  shows "\<exists>e. agregar_entrada r t f actual = Inl e"
proof -
  obtain e where "Observacion t = Inl e"
    using Observacion_rechaza[OF assms] by blast
  moreover have "t \<noteq> []" using assms(1) by auto
  ultimately show ?thesis by (simp add: agregar_entrada_def crear_con_timestamp_def)
qed

text \<open>
  With the character class as \<open>observacion.py\<close> holds it, the fixed texts of
  \<open>devolver_radicacion\<close> and \<open>marcar_como_recibida\<close> are rejected, so neither command
  ever returns.
\<close>

lemma devolver_radicacion_nunca_exito:
  "fst (devolver_radicacion r f m es_admin x) \<noteq> Exito"
proof -
  have "211 \<in> set (cp ''RADICACI'' @ [211] @ cp ''N DEVUELTA: '' @ m)" by simp
  then have "\<exists>e. agregar_entrada r (cp ''RADICACI'' @ [211] @ cp ''N DEVUELTA: '' @ m) f
                 (r_observaciones x) = Inl e"
    using o_mayuscula_rechazada by (rule agregar_entrada_rechaza)
  then show ?thesis by (auto simp: devolver_radicacion_def Let_def)
qed

lemma marcar_como_recibida_nunca_exito:
  "fst (marcar_como_recibida r f x) \<noteq> Exito"
proof -
  have "243 \<in> set (cp ''Radicaci'' @ [243] @ cp ''n recibida del '' @
                     nombre_corto (organismo_origen x))" by simp
  then have "\<exists>e. agregar_entrada r (cp ''Radicaci'' @ [243] @ cp ''n recibida del '' @
                     nombre_corto (organismo_origen x)) f (r_observaciones x) = Inl e"
    using o_minuscula_rechazada by (rule agregar_entrada_rechaza)
  then show ?thesis by (auto simp: marcar_como_recibida_def Let_def)
qed


section \<open>Returning a process\<close>

lemma puede_ser_devuelto_admin:
  "puede_ser_devuelto t True \<longleftrightarrow> t_estado t \<noteq> TRASLADADO \<and> t_estado t \<noteq> DEVUELTO"
  by (simp add: puede_ser_devuelto_def t_esta_en_estado_final_def t_es_estado_final_def)

lemma puede_ser_devuelto_no_admin: "puede_ser_devuelto t False = False"
  by (cases "t_estado t")
     (simp_all add: puede_ser_devuelto_def t_puede_transicionar_a_def
                    t_get_transiciones_permitidas_def)

lemma puede_ser_devuelta_admin:
  "puede_ser_devuelta x True \<longleftrightarrow> r_estado x \<noteq> RADICADO \<and> r_estado x \<noteq> R_DEVUELTO"
  by (simp add: puede_ser_devuelta_def r_esta_en_estado_final_def r_es_estado_final_def)

lemma puede_ser_devuelta_no_admin: "puede_ser_devuelta x False = False"
  by (cases "r_estado x")
     (simp_all add: puede_ser_devuelta_def r_puede_transicionar_a_def
                    r_get_transiciones_permitidas_def)

text \<open>Without admin rights, and from a final state, the call raises and changes nothing.\<close>

lemma devolver_traslado_rechazado:
  "\<not> puede_ser_devuelto t es_admin \<Longrightarrow>
   devolver_traslado r f m es_admin t = (Falla NoPuedeDevolver, t)"
  by (simp add: devolver_traslado_def)

lemma devolver_radicacion_rechazada:
  "\<not> puede_ser_devuelta x es_admin \<Longrightarrow>
   devolver_radicacion r f m es_admin x = (Falla NoPuedeDevolver, x)"
  by (simp add: devolver_radicacion_def)

text \<open>
  With admin rights a traslado that is not final passes the guard and is set to
  DEVUELTO; the call returns when the note of the devolution can be added.
\<close>

lemma devolver_traslado_admin:
  assumes "t_estado t \<noteq> TRASLADADO" "t_estado t \<noteq> DEVUELTO"
  shows "t_estado (snd (devolver_traslado r f m True t)) = DEVUELTO \<and>
         (fst (devolver_traslado r f m True t) = Exito \<longleftrightarrow>
            (\<exists>nueva. agregar_entrada r (cp ''TRASLADO DEVUELTO: '' @ m) f (t_observaciones t) =
                        Inr nueva))"
  using assms
  by (auto simp: devolver_traslado_def puede_ser_devuelto_admin Let_def split: sum.splits)

lemma devolver_traslado_exito:
  assumes "devolver_traslado r f m es_admin t = (Exito, t')"
  shows "es_admin \<and> t_estado t \<noteq> TRASLADADO \<and> t_estado t \<noteq> DEVUELTO \<and>
         t_estado t' = DEVUELTO"
proof -
  have p: "puede_ser_devuelto t es_admin"
    using assms by (auto simp: devolver_traslado_def split: if_splits)
  then have a: es_admin using puede_ser_devuelto_no_admin[of t] by (cases es_admin) auto
  with p have "t_estado t \<noteq> TRASLADADO \<and> t_estado t \<noteq> DEVUELTO"
    by (simp add: puede_ser_devuelto_admin)
  moreover have "t_estado t' = DEVUELTO"
    using assms p by (auto simp: devolver_traslado_def Let_def split: sum.splits)
  ultimately show ?thesis using a by simp
qed

text \<open>
  C3, at an input of the repository's own tests: a radicacion still PENDIENTE_RADICAR
  and \<open>devolver_radicacion("ADMIN", "Error en el envio", es_admin=True)\<close>. The guard
  lets the call through and \<open>estado\<close> becomes DEVUELTO, but the call raises: the entry
  text starts with \<open>RADICACI\<close>, U+00D3, \<open>N DEVUELTA\<close>, and U+00D3 is not in the character
  class that \<open>Observacion\<close> accepts. The same call on a traslado in the same position
  returns.
\<close>

theorem C3_devolver_radicacion_admin_falla:
  "r_estado radicacion_ej = PENDIENTE_RADICAR \<and>
   puede_ser_devuelta radicacion_ej True = True \<and>
   devolver_radicacion reloj_ej (cp ''ADMIN'') (cp ''Error en el envio'') True radicacion_ej =
     (Falla CaracteresNoPermitidos,
      radicacion_ej\<lparr>r_estado := R_DEVUELTO, r_funcionario_actual := Some (cp ''ADMIN''),
                    r_fecha_ultima_actualizacion := Some 20000\<rparr>) \<and>
   caracter_permitido 211 = False \<and>
   fst (devolver_traslado reloj_ej (cp ''ADMIN'') (cp ''Error en el envio'') True traslado_ej) =
     Exito"
proof -
  have 1: "r_estado radicacion_ej = PENDIENTE_RADICAR" by (simp add: radicacion_ej_def)
  have 2: "puede_ser_devuelta radicacion_ej True = True"
    using 1 by (simp add: puede_ser_devuelta_admin)
  have 3: "devolver_radicacion reloj_ej (cp ''ADMIN'') (cp ''Error en el envio'') True
             radicacion_ej =
           (Falla CaracteresNoPermitidos,
            radicacion_ej\<lparr>r_estado := R_DEVUELTO, r_funcionario_actual := Some (cp ''ADMIN''),
                          r_fecha_ultima_actualizacion := Some 20000\<rparr>)"
    by code_simp
  have 4: "caracter_permitido 211 = False" using o_mayuscula_rechazada(3) by simp
  have 5: "fst (devolver_traslado reloj_ej (cp ''ADMIN'') (cp ''Error en el envio'') True
                  traslado_ej) = Exito"
    by code_simp
  from 1 2 3 4 5 show ?thesis by simp
qed


section \<open>What a transition records\<close>





text \<open>When there are previous observations, the new text is built from them first.\<close>

lemma combinar_con_previa:
  assumes "\<not> esta_vacia previa" "\<not> esta_vacia entrada"
  shows "combinar_observaciones [previa, entrada] =
           Observacion (valor previa @ [10] @ cp ''---'' @ [10] @ valor entrada)"
  using assms by (simp add: combinar_observaciones_def Let_def)

lemma combinar_sin_previa:
  assumes "esta_vacia previa" "\<not> esta_vacia entrada"
  shows "combinar_observaciones [previa, entrada] = Observacion (valor entrada)"
  using assms by (simp add: combinar_observaciones_def Let_def)





end
